theory Spec2Isabelle
  imports Complex_Main
begin

section \<open>Strings and numbers of the host language\<close>

text \<open>
  Texts are byte strings in UTF-8; the glyphs of the output are the byte sequences of
  the characters in \<^verbatim>\<open>index.js\<close>. Only equality and concatenation of texts are used.
\<close>

definition bullet :: string where
  "bullet = [CHR 0xE2, CHR 0x80, CHR 0xA2]"

definition glyph_computer :: string where
  "glyph_computer = [CHR 0xF0, CHR 0x9F, CHR 0x96, CHR 0xA5, CHR 0xEF, CHR 0xB8, CHR 0x8F]"

definition glyph_green :: string where
  "glyph_green = [CHR 0xF0, CHR 0x9F, CHR 0x9F, CHR 0xA2]"

definition glyph_red :: string where
  "glyph_red = [CHR 0xF0, CHR 0x9F, CHR 0x94, CHR 0xB4]"

definition glyph_yellow :: string where
  "glyph_yellow = [CHR 0xF0, CHR 0x9F, CHR 0x9F, CHR 0xA1]"

definition glyph_warning :: string where
  "glyph_warning = [CHR 0xE2, CHR 0x9A, CHR 0xA0, CHR 0xEF, CHR 0xB8, CHR 0x8F]"

definition glyph_laptop :: string where
  "glyph_laptop = [CHR 0xF0, CHR 0x9F, CHR 0x92, CHR 0xBB]"

definition glyph_package :: string where
  "glyph_package = [CHR 0xF0, CHR 0x9F, CHR 0x93, CHR 0xA6]"

definition glyph_cross :: string where
  "glyph_cross = [CHR 0xE2, CHR 0x9D, CHR 0x8C]"

definition glyph_disk :: string where
  "glyph_disk = [CHR 0xF0, CHR 0x9F, CHR 0x92, CHR 0xBE]"

definition glyph_crane :: string where
  "glyph_crane = [CHR 0xF0, CHR 0x9F, CHR 0x8F, CHR 0x97, CHR 0xEF, CHR 0xB8, CHR 0x8F]"

text \<open>
  An absent property reads as \<^verbatim>\<open>undefined\<close>: optional values are \<open>option\<close>s, and
  a template literal prints \<^verbatim>\<open>undefined\<close> for a missing one. A string is truthy when it
  is not empty, a number when it is not zero.
\<close>

definition js_str :: "string option \<Rightarrow> string" where
  "js_str v = (case v of None \<Rightarrow> ''undefined'' | Some s \<Rightarrow> s)"

definition truthy_str :: "string option \<Rightarrow> bool" where
  "truthy_str v = (case v of None \<Rightarrow> False | Some s \<Rightarrow> s \<noteq> [])"

definition truthy_nat :: "nat option \<Rightarrow> bool" where
  "truthy_nat v = (case v of None \<Rightarrow> False | Some n \<Rightarrow> n \<noteq> 0)"

text \<open>\<^verbatim>\<open>a || b\<close> on strings.\<close>

definition str_or :: "string option \<Rightarrow> string \<Rightarrow> string" where
  "str_or v d = (case v of None \<Rightarrow> d | Some s \<Rightarrow> if s = [] then d else s)"

text \<open>\<^verbatim>\<open>n || 0\<close> on numbers.\<close>

definition nat_or0 :: "nat option \<Rightarrow> nat" where
  "nat_or0 v = (case v of None \<Rightarrow> 0 | Some n \<Rightarrow> n)"

definition num_or0 :: "rat option \<Rightarrow> rat" where
  "num_or0 v = (case v of None \<Rightarrow> 0 | Some x \<Rightarrow> x)"

subsection \<open>Printing integers\<close>

text \<open>
  Counts, identifiers, seconds and bytes are integers below \<open>2 ^ 53\<close>, which the
  host's numbers hold exactly; they are \<open>nat\<close>s here and print in decimal.
\<close>

definition digit :: "nat \<Rightarrow> char" where
  "digit d = ''0123456789'' ! d"

fun show_nat :: "nat \<Rightarrow> string" where
  "show_nat n = (if n < 10 then [digit n] else show_nat (n div 10) @ [digit (n mod 10)])"

declare show_nat.simps [simp del]

text \<open>\<^verbatim>\<open>toUpperCase\<close>, on the letters of ASCII (other bytes are kept).\<close>

definition upper_char :: "char \<Rightarrow> char" where
  "upper_char c = (let n = (of_char c :: nat) in if 97 \<le> n \<and> n \<le> 122 then char_of (n - 32) else c)"

definition toUpperCase :: "string \<Rightarrow> string" where
  "toUpperCase s = map upper_char s"

subsection \<open>Fractions: binary64 rounding and fixed notation\<close>

text \<open>
  A fraction (a CPU load, a percentage) is the rational value of a binary64 number.
  Each product, quotient and sum is rounded to the nearest binary64 value, ties to the
  even significand (\<open>fl\<close>). Values beyond the binary64 range (about \<open>1.8e308\<close>) are not
  modelled.
\<close>

definition pow2 :: "int \<Rightarrow> rat" where
  "pow2 e = (if 0 \<le> e then 2 ^ nat e else 1 / 2 ^ nat (- e))"

text \<open>The number of binary digits of a positive integer.\<close>

function bit_length :: "int \<Rightarrow> int" where
  "bit_length n = (if n \<le> 0 then 0 else 1 + bit_length (n div 2))"
  by pat_completeness auto
termination
  by (relation "measure nat") auto

declare bit_length.simps [simp del]

text \<open>The binary exponent \<open>e\<close> with \<open>2 ^ e \<le> x < 2 ^ (e + 1)\<close>, for \<open>x > 0\<close>.\<close>

definition exponent2 :: "rat \<Rightarrow> int" where
  "exponent2 x =
     (let (p, q) = quotient_of x;
          d = bit_length p - bit_length q
      in if pow2 d \<le> x then d else d - 1)"

definition round_half_even :: "rat \<Rightarrow> int" where
  "round_half_even x =
     (let n = \<lfloor>x\<rfloor>; r = x - of_int n
      in if r < 1 / 2 then n
         else if 1 / 2 < r then n + 1
         else if even n then n else n + 1)"

definition fl :: "rat \<Rightarrow> rat" where
  "fl x =
     (if x = 0 then 0
      else let e = max (exponent2 \<bar>x\<bar>) (- 1022);
               u = pow2 (e - 52)
           in sgn x * of_int (round_half_even (\<bar>x\<bar> / u)) * u)"

text \<open>
  \<^verbatim>\<open>x.toFixed(f)\<close>: the integer \<open>n\<close> with \<open>n / 10 ^ f\<close> nearest to \<open>x\<close>, the larger one
  of two; its digits, padded with zeros to \<open>f + 1\<close> places, with the point before the
  last \<open>f\<close>. (Below \<open>1e21\<close>; the program prints percentages and load averages.)
\<close>

definition fixed_digits :: "nat \<Rightarrow> nat \<Rightarrow> string" where
  "fixed_digits f n =
     (let m = show_nat n in
      if f = 0 then m
      else let m' = replicate (f + 1 - length m) CHR ''0'' @ m;
               k = length m'
           in take (k - f) m' @ ''.'' @ drop (k - f) m')"

definition toFixed :: "nat \<Rightarrow> rat \<Rightarrow> string" where
  "toFixed f x =
     (let s = (if x < 0 then ''-'' else '''');
          n = nat \<lfloor>\<bar>x\<bar> * 10 ^ f + 1 / 2\<rfloor>
      in s @ fixed_digits f n)"

text \<open>
  \<^verbatim>\<open>parseFloat(s) + ' '\<close> for a text \<open>s\<close> in fixed notation: the number prints again
  without the zeros that end its fraction, and without the point when no fraction is
  left (up to 15 digits the parsed number prints as the decimal it was read from).
\<close>

definition parseFloat_text :: "string \<Rightarrow> string" where
  "parseFloat_text s =
     (if CHR ''.'' \<in> set s
      then let t = rev (dropWhile (\<lambda>c. c = CHR ''0'') (rev s))
           in if last t = CHR ''.'' then butlast t else t
      else s)"

section \<open>Formatter helpers\<close>

definition formatUptime :: "nat \<Rightarrow> string" where
  "formatUptime seconds =
     (let days = seconds div 86400;
          hours = (seconds mod 86400) div 3600;
          minutes = (seconds mod 3600) div 60
      in if days > 0 then show_nat days @ ''d '' @ show_nat hours @ ''h '' @ show_nat minutes @ ''m''
         else if hours > 0 then show_nat hours @ ''h '' @ show_nat minutes @ ''m''
         else show_nat minutes @ ''m'')"

text \<open>
  \<^verbatim>\<open>formatBytes\<close> picks its unit with \<^verbatim>\<open>Math.floor(Math.log(bytes) / Math.log(k))\<close>.
  \<^verbatim>\<open>Math.log\<close> is a function of the host, which the language standard only asks to
  approximate the logarithm; its binary64 value at a byte count is the parameter
  \<open>Math_log\<close>. The quotient of the two logarithms is rounded to binary64 and floored as in
  the source. The quotient \<^verbatim>\<open>bytes / Math.pow(k, i)\<close> is by a power of two, which binary64
  division does exactly. An index outside the table of units prints \<^verbatim>\<open>undefined\<close>.
  Byte counts are taken to be integers below \<open>2\<^sup>5\<^sup>3\<close>, and the index to be at least \<open>-1\<close>,
  so that the quotient is below \<open>1e21\<close>, where \<^verbatim>\<open>toFixed\<close> prints fixed notation.
  Should the host's \<^verbatim>\<open>Math.log(k)\<close> be zero, the quotient of the logarithms is infinite or
  not a number, and so is what is printed.
\<close>

definition sizes :: "string list" where
  "sizes = [''B'', ''KB'', ''MB'', ''GB'', ''TB'']"

definition formatBytes :: "(nat \<Rightarrow> rat) \<Rightarrow> nat \<Rightarrow> string" where
  "formatBytes Math_log bytes =
     (if bytes = 0 then ''0 B''
      else let k = 1024 in
           if Math_log k = 0
           then (if 0 < Math_log bytes then ''0 undefined''
                 else if Math_log bytes < 0 then ''Infinity undefined''
                 else ''NaN undefined'')
           else let i = \<lfloor>fl (Math_log bytes / Math_log k)\<rfloor>
                in parseFloat_text (toFixed 2 (of_nat bytes / power_int (of_nat k) i)) @ '' '' @
                   (if 0 \<le> i \<and> i < int (length sizes) then sizes ! nat i else ''undefined''))"

text \<open>\<^verbatim>\<open>((a / b) * 100).toFixed(1)\<close> for \<open>b \<noteq> 0\<close>.\<close>

definition percent1 :: "rat \<Rightarrow> rat \<Rightarrow> string" where
  "percent1 a b = toFixed 1 (fl (fl (a / b) * 100))"

text \<open>
  The same expression where the program does not guard the divisor: a zero divisor
  gives \<^verbatim>\<open>NaN\<close> or \<^verbatim>\<open>Infinity\<close>, which \<^verbatim>\<open>toFixed\<close> prints by name.
\<close>

definition percent1_unguarded :: "nat \<Rightarrow> nat \<Rightarrow> string" where
  "percent1_unguarded a b =
     (if b = 0 then (if a = 0 then ''NaN'' else ''Infinity'')
      else percent1 (of_nat a) (of_nat b))"

text \<open>\<^verbatim>\<open>(x * 100).toFixed(1)\<close> followed by the percent sign.\<close>

definition cpu_percent :: "rat \<Rightarrow> string" where
  "cpu_percent x = toFixed 1 (fl (x * 100)) @ ''%''"

section \<open>Data model\<close>

text \<open>
  The views of the backend's replies, with every optional property an \<open>option\<close>.
  A reply is taken to have the shape of its view.
\<close>

record pve_node =
  n_node :: string
  n_status :: string
  n_uptime :: "nat option"
  n_cpu :: "rat option"
  n_mem :: "nat option"
  n_maxmem :: "nat option"
  n_maxcpu :: "nat option"
  n_loadavg :: "rat list option"

record guest =
  g_vmid :: nat
  g_name :: "string option"
  g_status :: string
  g_node :: "string option"
  g_uptime :: "nat option"
  g_cpu :: "rat option"
  g_mem :: "nat option"
  g_maxmem :: "nat option"
  g_diskread :: "nat option"
  g_diskwrite :: "nat option"
  g_netin :: "nat option"
  g_netout :: "nat option"

text \<open>A listed guest after \<^verbatim>\<open>{ ...vm, type: t, node: n }\<close>.\<close>

record vm =
  vm_guest :: guest
  vm_type :: string
  vm_node :: string

record usage =
  u_used :: nat
  u_total :: nat

record node_status =
  ns_uptime :: "nat option"
  ns_loadavg :: "string list option"
  ns_cpu :: "rat option"
  ns_memory :: "usage option"
  ns_rootfs :: "usage option"

record storage =
  st_storage :: string
  st_type :: "string option"
  st_content :: "string option"
  st_enabled :: "nat option"
  st_total :: "nat option"
  st_used :: "nat option"

text \<open>A storage entry after \<^verbatim>\<open>{ ...storage, node: n }\<close>.\<close>

record storage_at =
  sa_storage :: storage
  sa_node :: string

text \<open>The Result Payload \<^verbatim>\<open>{ content: [{ type: 'text', text }] }\<close>.\<close>

datatype content = Text string

type_synonym payload = "content list"

definition text_payload :: "string \<Rightarrow> payload" where
  "text_payload s = [Text s]"

text \<open>The arguments of a request; a parameter that the caller left out is \<open>None\<close>.\<close>

record arguments =
  arg_node :: "string option"
  arg_vmid :: "string option"
  arg_command :: "string option"
  arg_type :: "string option"

text \<open>The operation catalog: each descriptor with its parameters and the required ones.\<close>

record descriptor =
  d_name :: string
  d_properties :: "string list"
  d_required :: "string list"

definition catalog :: "descriptor list" where
  "catalog =
     [\<lparr>d_name = ''proxmox_get_nodes'', d_properties = [], d_required = []\<rparr>,
      \<lparr>d_name = ''proxmox_get_node_status'', d_properties = [''node''], d_required = [''node'']\<rparr>,
      \<lparr>d_name = ''proxmox_get_vms'', d_properties = [''node'', ''type''], d_required = []\<rparr>,
      \<lparr>d_name = ''proxmox_get_vm_status'', d_properties = [''node'', ''vmid'', ''type''],
        d_required = [''node'', ''vmid'']\<rparr>,
      \<lparr>d_name = ''proxmox_execute_vm_command'',
        d_properties = [''node'', ''vmid'', ''command'', ''type''],
        d_required = [''node'', ''vmid'', ''command'']\<rparr>,
      \<lparr>d_name = ''proxmox_get_storage'', d_properties = [''node''], d_required = []\<rparr>,
      \<lparr>d_name = ''proxmox_get_cluster_status'', d_properties = [], d_required = []\<rparr>]"

section \<open>The backend and the host\<close>

text \<open>
  A backend call is what \<^verbatim>\<open>fetch\<close> is given: the URL, the method, the authorization
  header and the body (the content type and the TLS agent are the same in every call).
  The body of a POST is the object \<^verbatim>\<open>{ command }\<close> before \<^verbatim>\<open>JSON.stringify\<close>.
\<close>

datatype request_body = NoBody | CommandBody "string option"

record call =
  c_url :: string
  c_method :: string
  c_authorization :: string
  c_body :: request_body

record response =
  r_ok :: bool
  r_status :: nat
  r_text :: string

text \<open>\<^verbatim>\<open>fetch\<close> rejects with an error (its name and message) or resolves to a response.\<close>

datatype fetch_outcome = Rejected string string | Resolved response

text \<open>
  The world of one adapter: its connection configuration, the backend (which may answer
  by the calls made before), and the host's functions that the program calls:
  \<^verbatim>\<open>Math.log\<close>, \<^verbatim>\<open>localeCompare\<close>, and \<^verbatim>\<open>JSON.parse\<close> followed by the reading of \<^verbatim>\<open>data\<close>
  at each view (\<open>Inl\<close> is the message of a \<^verbatim>\<open>SyntaxError\<close>).
\<close>

record world =
  proxmoxHost :: string
  proxmoxUser :: string
  proxmoxTokenName :: string
  proxmoxTokenValue :: "string option"
  proxmoxPort :: string
  allowElevated :: bool
  fetch :: "call list \<Rightarrow> call \<Rightarrow> fetch_outcome"
  Math_log :: "nat \<Rightarrow> rat"
  localeCompare :: "string \<Rightarrow> string \<Rightarrow> int"
  parse_nodes :: "string \<Rightarrow> string + pve_node list"
  parse_node_status :: "string \<Rightarrow> string + node_status"
  parse_guests :: "string \<Rightarrow> string + guest list"
  parse_guest :: "string \<Rightarrow> string + guest"
  parse_agent_exec :: "string \<Rightarrow> string + nat option"
  parse_lxc_exec :: "string \<Rightarrow> string + string option"
  parse_storages :: "string \<Rightarrow> string + storage list"
  parse_cluster_status :: "string \<Rightarrow> string + unit"

text \<open>
  An asynchronous computation: from the calls made so far to a value or the message of
  the error thrown, and the calls made then.
\<close>

type_synonym 'a io = "call list \<Rightarrow> (string + 'a) \<times> call list"

definition io_return :: "'a \<Rightarrow> 'a io" where
  "io_return x = (\<lambda>made. (Inr x, made))"

definition io_throw :: "string \<Rightarrow> 'a io" where
  "io_throw e = (\<lambda>made. (Inl e, made))"

definition io_bind :: "'a io \<Rightarrow> ('a \<Rightarrow> 'b io) \<Rightarrow> 'b io" where
  "io_bind m f = (\<lambda>made. case m made of (Inl e, made') \<Rightarrow> (Inl e, made') | (Inr x, made') \<Rightarrow> f x made')"

definition io_catch :: "'a io \<Rightarrow> (string \<Rightarrow> 'a io) \<Rightarrow> 'a io" where
  "io_catch m h = (\<lambda>made. case m made of (Inl e, made') \<Rightarrow> h e made' | (Inr x, made') \<Rightarrow> (Inr x, made'))"

text \<open>\<^verbatim>\<open>!text.trim()\<close>: the text has nothing but white space and line terminators.\<close>

definition ws3 :: "char \<Rightarrow> char \<Rightarrow> char \<Rightarrow> bool" where
  "ws3 c d e =
     ((c = CHR 0xE1 \<and> d = CHR 0x9A \<and> e = CHR 0x80) \<or>
      (c = CHR 0xE2 \<and> d = CHR 0x80 \<and>
         ((128 \<le> (of_char e :: nat) \<and> (of_char e :: nat) \<le> 138) \<or>
          e = CHR 0xA8 \<or> e = CHR 0xA9 \<or> e = CHR 0xAF)) \<or>
      (c = CHR 0xE2 \<and> d = CHR 0x81 \<and> e = CHR 0x9F) \<or>
      (c = CHR 0xE3 \<and> d = CHR 0x80 \<and> e = CHR 0x80) \<or>
      (c = CHR 0xEF \<and> d = CHR 0xBB \<and> e = CHR 0xBF))"

fun blank :: "string \<Rightarrow> bool" where
  "blank [] = True"
| "blank [c] = ((of_char c :: nat) \<in> {9, 10, 11, 12, 13, 32})"
| "blank [c, d] =
     (if (of_char c :: nat) \<in> {9, 10, 11, 12, 13, 32} then blank [d]
      else c = CHR 0xC2 \<and> d = CHR 0xA0)"
| "blank (c # d # e # cs) =
     (if (of_char c :: nat) \<in> {9, 10, 11, 12, 13, 32} then blank (d # e # cs)
      else if c = CHR 0xC2 \<and> d = CHR 0xA0 then blank (e # cs)
      else if ws3 c d e then blank cs
      else False)"

section \<open>Backend client\<close>

definition baseUrl :: "world \<Rightarrow> string" where
  "baseUrl w = ''https://'' @ proxmoxHost w @ '':'' @ proxmoxPort w @ ''/api2/json''"

definition auth_header :: "world \<Rightarrow> string" where
  "auth_header w =
     ''PVEAPIToken='' @ proxmoxUser w @ ''!'' @ proxmoxTokenName w @ ''='' @
     js_str (proxmoxTokenValue w)"

definition mk_call :: "world \<Rightarrow> string \<Rightarrow> string \<Rightarrow> request_body \<Rightarrow> call" where
  "mk_call w endpoint method body =
     \<lparr>c_url = baseUrl w @ endpoint, c_method = method,
      c_authorization = auth_header w, c_body = body\<rparr>"

definition proxmoxRequest ::
  "world \<Rightarrow> (string \<Rightarrow> string + 'a) \<Rightarrow> string \<Rightarrow> string \<Rightarrow> request_body \<Rightarrow> 'a io" where
  "proxmoxRequest w parse endpoint method body =
     (\<lambda>made.
        let c = mk_call w endpoint method body;
            made' = made @ [c]
        in case fetch w made c of
             Rejected name message \<Rightarrow>
               (if name = ''SyntaxError''
                then (Inl (''Failed to parse Proxmox API response: '' @ message), made')
                else (Inl (''Failed to connect to Proxmox: '' @ message), made'))
           | Resolved r \<Rightarrow>
               if \<not> r_ok r
               then (Inl (''Failed to connect to Proxmox: '' @
                          (''Proxmox API error: '' @ show_nat (r_status r) @ '' - '' @ r_text r)),
                     made')
               else if blank (r_text r)
               then (Inl (''Failed to connect to Proxmox: '' @ ''Empty response from Proxmox API''),
                     made')
               else (case parse (r_text r) of
                       Inl message \<Rightarrow>
                         (Inl (''Failed to parse Proxmox API response: '' @ message), made')
                     | Inr d \<Rightarrow> (Inr d, made')))"

section \<open>Handlers\<close>

text \<open>
  \<^verbatim>\<open>v ? f(v) : d\<close> and \<^verbatim>\<open>a && b ? f(a, b) : d\<close> on optional numbers: the test is the
  truthiness of the value, so an absent value and zero both take the second branch.
\<close>

definition if_nat :: "nat option \<Rightarrow> (nat \<Rightarrow> string) \<Rightarrow> string \<Rightarrow> string" where
  "if_nat v f d = (case v of None \<Rightarrow> d | Some n \<Rightarrow> if n \<noteq> 0 then f n else d)"

definition if_num :: "rat option \<Rightarrow> (rat \<Rightarrow> string) \<Rightarrow> string \<Rightarrow> string" where
  "if_num v f d = (case v of None \<Rightarrow> d | Some x \<Rightarrow> if x \<noteq> 0 then f x else d)"

definition if_nat2 ::
  "nat option \<Rightarrow> nat option \<Rightarrow> (nat \<Rightarrow> nat \<Rightarrow> string) \<Rightarrow> string \<Rightarrow> string" where
  "if_nat2 a b f d =
     (case a of None \<Rightarrow> d
      | Some m \<Rightarrow> if m = 0 then d
                  else (case b of None \<Rightarrow> d | Some n \<Rightarrow> if n \<noteq> 0 then f m n else d))"

subsection \<open>list-nodes\<close>

definition node_block :: "world \<Rightarrow> pve_node \<Rightarrow> string" where
  "node_block w node =
     (let status = (if n_status node = ''online'' then glyph_green else glyph_red);
          uptime = if_nat (n_uptime node) formatUptime ''N/A'';
          cpuUsage = if_num (n_cpu node) cpu_percent ''N/A'';
          memUsage = if_nat2 (n_mem node) (n_maxmem node)
            (\<lambda>mem maxmem. formatBytes (Math_log w) mem @ '' / '' @ formatBytes (Math_log w) maxmem @
               '' ('' @ percent1 (of_nat mem) (of_nat maxmem) @ ''%)'') ''N/A'';
          load = (case n_loadavg node of
                    None \<Rightarrow> ''N/A''
                  | Some [] \<Rightarrow> ''N/A''
                  | Some (x # _) \<Rightarrow> toFixed 2 x)
      in status @ '' **'' @ n_node node @ ''**\<newline>'' @
         ''   '' @ bullet @ '' Status: '' @ n_status node @ ''\<newline>'' @
         ''   '' @ bullet @ '' Uptime: '' @ uptime @ ''\<newline>'' @
         ''   '' @ bullet @ '' CPU: '' @ cpuUsage @ ''\<newline>'' @
         ''   '' @ bullet @ '' Memory: '' @ memUsage @ ''\<newline>'' @
         ''   '' @ bullet @ '' Load: '' @ load @ ''\<newline>\<newline>'')"

definition getNodes :: "world \<Rightarrow> payload io" where
  "getNodes w =
     io_bind (proxmoxRequest w (parse_nodes w) ''/nodes'' ''GET'' NoBody)
       (\<lambda>nodes.
          let output = glyph_computer @ ''  **Proxmox Cluster Nodes**\<newline>\<newline>''
          in io_return (text_payload (foldl (\<lambda>output node. output @ node_block w node) output nodes)))"

subsection \<open>node-status\<close>

definition node_status_gate_text :: string where
  "node_status_gate_text =
     glyph_warning @ ''  **Node Status Requires Elevated Permissions**\<newline>\<newline>'' @
     ''To view detailed node status, set `PROXMOX_ALLOW_ELEVATED=true` in your .env file '' @
     ''and ensure your API token has Sys.Audit permissions.\<newline>\<newline>'' @
     ''**Current permissions**: Basic (node listing only)''"

definition join_comma :: "string list \<Rightarrow> string" where
  "join_comma xs = (case xs of [] \<Rightarrow> [] | x # ys \<Rightarrow> foldl (\<lambda>a y. a @ '', '' @ y) x ys)"

definition usage_text :: "world \<Rightarrow> usage option \<Rightarrow> string" where
  "usage_text w u =
     (case u of
        None \<Rightarrow> ''N/A''
      | Some m \<Rightarrow>
          formatBytes (Math_log w) (u_used m) @ '' / '' @ formatBytes (Math_log w) (u_total m) @
          '' ('' @ percent1_unguarded (u_used m) (u_total m) @ ''%)'')"

definition node_status_text :: "world \<Rightarrow> string option \<Rightarrow> node_status \<Rightarrow> string" where
  "node_status_text w node status =
     glyph_computer @ ''  **Node '' @ js_str node @ '' Status**\<newline>\<newline>'' @
     bullet @ '' **Status**: '' @
       if_nat (ns_uptime status) (\<lambda>_. glyph_green @ '' Online'') (glyph_red @ '' Offline'') @
       ''\<newline>'' @
     bullet @ '' **Uptime**: '' @ if_nat (ns_uptime status) formatUptime ''N/A'' @ ''\<newline>'' @
     bullet @ '' **Load Average**: '' @
       (case ns_loadavg status of
          None \<Rightarrow> ''N/A''
        | Some l \<Rightarrow> if join_comma l = [] then ''N/A'' else join_comma l) @ ''\<newline>'' @
     bullet @ '' **CPU Usage**: '' @ if_num (ns_cpu status) cpu_percent ''N/A'' @ ''\<newline>'' @
     bullet @ '' **Memory**: '' @ usage_text w (ns_memory status) @ ''\<newline>'' @
     bullet @ '' **Root Disk**: '' @ usage_text w (ns_rootfs status) @ ''\<newline>''"

definition getNodeStatus :: "world \<Rightarrow> string option \<Rightarrow> payload io" where
  "getNodeStatus w node =
     (if \<not> allowElevated w then io_return (text_payload node_status_gate_text)
      else io_bind
             (proxmoxRequest w (parse_node_status w) (''/nodes/'' @ js_str node @ ''/status'')
                ''GET'' NoBody)
             (\<lambda>status. io_return (text_payload (node_status_text w node status))))"

subsection \<open>list-guests\<close>

definition tag_guest :: "string \<Rightarrow> string \<Rightarrow> guest \<Rightarrow> vm" where
  "tag_guest t n g = \<lparr>vm_guest = g, vm_type = t, vm_node = n\<rparr>"

text \<open>The body of the loop over the nodes, when no node filter is given.\<close>

definition vms_of_node :: "world \<Rightarrow> string \<Rightarrow> pve_node \<Rightarrow> vm list \<Rightarrow> vm list io" where
  "vms_of_node w typeFilter node vms =
     io_bind
       (if typeFilter = ''all'' \<or> typeFilter = ''qemu''
        then io_bind
               (proxmoxRequest w (parse_guests w) (''/nodes/'' @ n_node node @ ''/qemu'')
                  ''GET'' NoBody)
               (\<lambda>nodeVMs. io_return (vms @ map (tag_guest ''qemu'' (n_node node)) nodeVMs))
        else io_return vms)
       (\<lambda>vms.
          if typeFilter = ''all'' \<or> typeFilter = ''lxc''
          then io_bind
                 (proxmoxRequest w (parse_guests w) (''/nodes/'' @ n_node node @ ''/lxc'')
                    ''GET'' NoBody)
                 (\<lambda>nodeLXCs.
                    io_return
                      (vms @ map (\<lambda>vm. tag_guest ''lxc'' (str_or (g_node vm) (n_node node)) vm)
                               nodeLXCs))
          else io_return vms)"

fun vms_of_nodes :: "world \<Rightarrow> string \<Rightarrow> pve_node list \<Rightarrow> vm list \<Rightarrow> vm list io" where
  "vms_of_nodes w typeFilter [] vms made = (Inr vms, made)"
| "vms_of_nodes w typeFilter (node # nodes) vms made =
     (case vms_of_node w typeFilter node vms made of
        (Inl e, made') \<Rightarrow> (Inl e, made')
      | (Inr vms', made') \<Rightarrow> vms_of_nodes w typeFilter nodes vms' made')"

definition status_glyph :: "string \<Rightarrow> string" where
  "status_glyph status =
     (if status = ''running'' then glyph_green
      else if status = ''stopped'' then glyph_red else glyph_yellow)"

definition vm_block :: "world \<Rightarrow> vm \<Rightarrow> string" where
  "vm_block w v =
     (let g = vm_guest v;
          status = status_glyph (g_status g);
          typeIcon = (if vm_type v = ''qemu'' then glyph_computer else glyph_package);
          uptime = if_nat (g_uptime g) formatUptime ''N/A'';
          cpuUsage = if_num (g_cpu g) cpu_percent ''N/A'';
          memUsage = if_nat2 (g_mem g) (g_maxmem g)
            (\<lambda>mem maxmem. formatBytes (Math_log w) mem @ '' / '' @ formatBytes (Math_log w) maxmem)
            ''N/A''
      in status @ '' '' @ typeIcon @ '' **'' @ str_or (g_name g) (''VM-'' @ show_nat (g_vmid g)) @
           ''** (ID: '' @ show_nat (g_vmid g) @ '')\<newline>'' @
         ''   '' @ bullet @ '' Node: '' @ vm_node v @ ''\<newline>'' @
         ''   '' @ bullet @ '' Status: '' @ g_status g @ ''\<newline>'' @
         ''   '' @ bullet @ '' Type: '' @ toUpperCase (vm_type v) @ ''\<newline>'' @
         (if g_status g = ''running''
          then ''   '' @ bullet @ '' Uptime: '' @ uptime @ ''\<newline>'' @
               ''   '' @ bullet @ '' CPU: '' @ cpuUsage @ ''\<newline>'' @
               ''   '' @ bullet @ '' Memory: '' @ memUsage @ ''\<newline>''
          else []) @
         ''\<newline>'')"

text \<open>
  \<^verbatim>\<open>vms.sort((a, b) => parseInt(a.vmid) - parseInt(b.vmid))\<close> is a stable sort by the
  identifier.
\<close>

definition vms_text :: "world \<Rightarrow> vm list \<Rightarrow> string" where
  "vms_text w vms =
     (let output = glyph_laptop @ '' **Virtual Machines**\<newline>\<newline>''
      in if length vms = 0 then output @ ''No virtual machines found.\<newline>''
         else foldl (\<lambda>output v. output @ vm_block w v) output
                (sort_key (\<lambda>v. g_vmid (vm_guest v)) vms))"

definition getVMs :: "world \<Rightarrow> string option \<Rightarrow> string option \<Rightarrow> payload io" where
  "getVMs w nodeFilter typeFilter' =
     (let typeFilter = (case typeFilter' of None \<Rightarrow> ''all'' | Some t \<Rightarrow> t);
          vms = []
      in io_bind
           (if truthy_str nodeFilter
            then io_bind
                   (proxmoxRequest w (parse_guests w) (''/nodes/'' @ js_str nodeFilter @ ''/qemu'')
                      ''GET'' NoBody)
                   (\<lambda>nodeVMs.
                      io_bind
                        (proxmoxRequest w (parse_guests w)
                           (''/nodes/'' @ js_str nodeFilter @ ''/lxc'') ''GET'' NoBody)
                        (\<lambda>nodeLXCs.
                           let vms = (if typeFilter = ''all'' \<or> typeFilter = ''qemu''
                                      then vms @ map (tag_guest ''qemu'' (js_str nodeFilter)) nodeVMs
                                      else vms);
                               vms = (if typeFilter = ''all'' \<or> typeFilter = ''lxc''
                                      then vms @ map (tag_guest ''lxc'' (js_str nodeFilter)) nodeLXCs
                                      else vms)
                           in io_return vms))
            else io_bind (proxmoxRequest w (parse_nodes w) ''/nodes'' ''GET'' NoBody)
                   (\<lambda>nodes. vms_of_nodes w typeFilter nodes vms))
           (\<lambda>vms. io_return (text_payload (vms_text w vms))))"

subsection \<open>guest-status\<close>

definition vm_status_text ::
  "world \<Rightarrow> string option \<Rightarrow> string option \<Rightarrow> string \<Rightarrow> guest \<Rightarrow> string" where
  "vm_status_text w node vmid type vmStatus =
     (let status = status_glyph (g_status vmStatus);
          typeIcon = (if type = ''qemu'' then glyph_computer else glyph_package);
          fb = formatBytes (Math_log w)
      in status @ '' '' @ typeIcon @ '' **'' @ str_or (g_name vmStatus) (''VM-'' @ js_str vmid) @
           ''** (ID: '' @ js_str vmid @ '')\<newline>\<newline>'' @
         bullet @ '' **Node**: '' @ js_str node @ ''\<newline>'' @
         bullet @ '' **Status**: '' @ g_status vmStatus @ ''\<newline>'' @
         bullet @ '' **Type**: '' @ toUpperCase type @ ''\<newline>'' @
         (if g_status vmStatus = ''running''
          then bullet @ '' **Uptime**: '' @ if_nat (g_uptime vmStatus) formatUptime ''N/A'' @
                 ''\<newline>'' @
               bullet @ '' **CPU Usage**: '' @ if_num (g_cpu vmStatus) cpu_percent ''N/A'' @
                 ''\<newline>'' @
               bullet @ '' **Memory**: '' @
                 if_nat2 (g_mem vmStatus) (g_maxmem vmStatus)
                   (\<lambda>mem maxmem. fb mem @ '' / '' @ fb maxmem @
                      '' ('' @ percent1 (of_nat mem) (of_nat maxmem) @ ''%)'') ''N/A'' @
                 ''\<newline>'' @
               bullet @ '' **Disk Read**: '' @ if_nat (g_diskread vmStatus) fb ''N/A'' @
                 ''\<newline>'' @
               bullet @ '' **Disk Write**: '' @ if_nat (g_diskwrite vmStatus) fb ''N/A'' @
                 ''\<newline>'' @
               bullet @ '' **Network In**: '' @ if_nat (g_netin vmStatus) fb ''N/A'' @
                 ''\<newline>'' @
               bullet @ '' **Network Out**: '' @ if_nat (g_netout vmStatus) fb ''N/A'' @
                 ''\<newline>''
          else []))"

definition getVMStatus ::
  "world \<Rightarrow> string option \<Rightarrow> string option \<Rightarrow> string option \<Rightarrow> payload io" where
  "getVMStatus w node vmid type' =
     (let type = (case type' of None \<Rightarrow> ''qemu'' | Some t \<Rightarrow> t)
      in io_bind
           (proxmoxRequest w (parse_guest w)
              (''/nodes/'' @ js_str node @ ''/'' @ type @ ''/'' @ js_str vmid @ ''/status/current'')
              ''GET'' NoBody)
           (\<lambda>vmStatus. io_return (text_payload (vm_status_text w node vmid type vmStatus))))"

subsection \<open>guest-exec\<close>

definition exec_gate_text :: "string option \<Rightarrow> string" where
  "exec_gate_text command =
     glyph_warning @ ''  **VM Command Execution Requires Elevated Permissions**\<newline>\<newline>'' @
     ''To execute commands on VMs, set `PROXMOX_ALLOW_ELEVATED=true` in your .env file '' @
     ''and ensure your API token has appropriate VM permissions.\<newline>\<newline>'' @
     ''**Current permissions**: Basic (VM listing only)\<newline>'' @
     ''**Requested command**: `'' @ js_str command @ ''`''"

definition qemu_exec_text :: "string option \<Rightarrow> string option \<Rightarrow> nat option \<Rightarrow> string" where
  "qemu_exec_text vmid command pid =
     glyph_laptop @ '' **Command executed on VM '' @ js_str vmid @ ''**\<newline>\<newline>'' @
     ''**Command**: `'' @ js_str command @ ''`\<newline>'' @
     ''**Result**: Command submitted to guest agent\<newline>'' @
     ''**PID**: '' @ if_nat pid show_nat ''N/A'' @ ''\<newline>\<newline>'' @
     ''*Note: Use guest agent status to check command completion*''"

definition lxc_exec_text :: "string option \<Rightarrow> string option \<Rightarrow> string option \<Rightarrow> string" where
  "lxc_exec_text vmid command result =
     glyph_package @ '' **Command executed on LXC '' @ js_str vmid @ ''**\<newline>\<newline>'' @
     ''**Command**: `'' @ js_str command @ ''`\<newline>'' @
     ''**Output**:\<newline>```\<newline>'' @ str_or result ''Command executed successfully'' @
     ''\<newline>```''"

definition exec_failure_text :: "string option \<Rightarrow> string \<Rightarrow> string" where
  "exec_failure_text vmid message =
     glyph_cross @ '' **Failed to execute command on VM '' @ js_str vmid @ ''**\<newline>\<newline>'' @
     ''Error: '' @ message @ ''\<newline>\<newline>'' @
     ''*Note: Make sure the VM has guest agent installed and running*''"

definition executeVMCommand ::
  "world \<Rightarrow> string option \<Rightarrow> string option \<Rightarrow> string option \<Rightarrow> string option \<Rightarrow> payload io" where
  "executeVMCommand w node vmid command type' =
     (let type = (case type' of None \<Rightarrow> ''qemu'' | Some t \<Rightarrow> t)
      in if \<not> allowElevated w then io_return (text_payload (exec_gate_text command))
         else io_catch
                (if type = ''qemu''
                 then io_bind
                        (proxmoxRequest w (parse_agent_exec w)
                           (''/nodes/'' @ js_str node @ ''/qemu/'' @ js_str vmid @ ''/agent/exec'')
                           ''POST'' (CommandBody command))
                        (\<lambda>pid. io_return (text_payload (qemu_exec_text vmid command pid)))
                 else io_bind
                        (proxmoxRequest w (parse_lxc_exec w)
                           (''/nodes/'' @ js_str node @ ''/lxc/'' @ js_str vmid @ ''/exec'')
                           ''POST'' (CommandBody command))
                        (\<lambda>result. io_return (text_payload (lxc_exec_text vmid command result))))
                (\<lambda>message. io_return (text_payload (exec_failure_text vmid message))))"

subsection \<open>list-storage\<close>

definition at_node :: "string \<Rightarrow> storage \<Rightarrow> storage_at" where
  "at_node n s = \<lparr>sa_storage = s, sa_node = n\<rparr>"

fun storages_of_nodes :: "world \<Rightarrow> pve_node list \<Rightarrow> storage_at list \<Rightarrow> storage_at list io" where
  "storages_of_nodes w [] storages made = (Inr storages, made)"
| "storages_of_nodes w (node # nodes) storages made =
     (case proxmoxRequest w (parse_storages w) (''/nodes/'' @ n_node node @ ''/storage'')
             ''GET'' NoBody made of
        (Inl e, made') \<Rightarrow> (Inl e, made')
      | (Inr nodeStorages, made') \<Rightarrow>
          storages_of_nodes w nodes (storages @ map (at_node (n_node node)) nodeStorages) made')"

definition storage_key :: "storage_at \<Rightarrow> string" where
  "storage_key s = st_storage (sa_storage s) @ ''-'' @ sa_node s"

text \<open>The loop that fills \<^verbatim>\<open>uniqueStorages\<close>, with the set \<^verbatim>\<open>seen\<close> of keys.\<close>

fun unique_loop :: "storage_at list \<Rightarrow> string set \<Rightarrow> storage_at list \<Rightarrow> storage_at list" where
  "unique_loop [] seen uniqueStorages = uniqueStorages"
| "unique_loop (s # ss) seen uniqueStorages =
     (if storage_key s \<notin> seen
      then unique_loop ss (insert (storage_key s) seen) (uniqueStorages @ [s])
      else unique_loop ss seen uniqueStorages)"

text \<open>
  \<^verbatim>\<open>xs.sort(cmp)\<close> is stable; for a comparator that orders its arguments consistently
  every stable sort gives the list that insertion gives.
\<close>

fun insort_cmp :: "('a \<Rightarrow> 'a \<Rightarrow> int) \<Rightarrow> 'a \<Rightarrow> 'a list \<Rightarrow> 'a list" where
  "insort_cmp cmp x [] = [x]"
| "insort_cmp cmp x (y # ys) = (if cmp x y \<le> 0 then x # y # ys else y # insort_cmp cmp x ys)"

definition sort_cmp :: "('a \<Rightarrow> 'a \<Rightarrow> int) \<Rightarrow> 'a list \<Rightarrow> 'a list" where
  "sort_cmp cmp xs = foldr (insort_cmp cmp) xs []"

definition storage_block :: "world \<Rightarrow> storage_at \<Rightarrow> string" where
  "storage_block w s =
     (let storage = sa_storage s;
          enabled = (if truthy_nat (st_enabled storage) then glyph_green else glyph_red);
          usagePercent = if_nat2 (st_total storage) (st_used storage)
            (\<lambda>total used. percent1 (of_nat used) (of_nat total)) ''N/A''
      in enabled @ '' **'' @ st_storage storage @ ''**\<newline>'' @
         ''   '' @ bullet @ '' Node: '' @ sa_node s @ ''\<newline>'' @
         ''   '' @ bullet @ '' Type: '' @ str_or (st_type storage) ''N/A'' @ ''\<newline>'' @
         ''   '' @ bullet @ '' Content: '' @ str_or (st_content storage) ''N/A'' @ ''\<newline>'' @
         if_nat2 (st_total storage) (st_used storage)
           (\<lambda>total used.
              ''   '' @ bullet @ '' Usage: '' @ formatBytes (Math_log w) used @ '' / '' @
              formatBytes (Math_log w) total @ '' ('' @ usagePercent @ ''%)\<newline>'') [] @
         ''   '' @ bullet @ '' Status: '' @
           (if truthy_nat (st_enabled storage) then ''Enabled'' else ''Disabled'') @
           ''\<newline>\<newline>'')"

definition shown_storages :: "world \<Rightarrow> storage_at list \<Rightarrow> storage_at list" where
  "shown_storages w storages =
     sort_cmp (\<lambda>a b. localeCompare w (st_storage (sa_storage a)) (st_storage (sa_storage b)))
       (unique_loop storages {} [])"

definition storages_text :: "world \<Rightarrow> storage_at list \<Rightarrow> string" where
  "storages_text w storages =
     (let output = glyph_disk @ '' **Storage Pools**\<newline>\<newline>''
      in if length storages = 0 then output @ ''No storage found.\<newline>''
         else foldl (\<lambda>output s. output @ storage_block w s) output (shown_storages w storages))"

definition getStorage :: "world \<Rightarrow> string option \<Rightarrow> payload io" where
  "getStorage w nodeFilter =
     io_bind
       (if truthy_str nodeFilter
        then io_bind
               (proxmoxRequest w (parse_storages w)
                  (''/nodes/'' @ js_str nodeFilter @ ''/storage'') ''GET'' NoBody)
               (\<lambda>storages. io_return (map (at_node (js_str nodeFilter)) storages))
        else io_bind (proxmoxRequest w (parse_nodes w) ''/nodes'' ''GET'' NoBody)
               (\<lambda>nodes. storages_of_nodes w nodes []))
       (\<lambda>storages. io_return (text_payload (storages_text w storages)))"

subsection \<open>cluster-status\<close>

record totals =
  totalCpu :: nat
  usedCpu :: rat
  totalMem :: nat
  usedMem :: nat

fun resource_loop :: "pve_node list \<Rightarrow> totals \<Rightarrow> totals" where
  "resource_loop [] t = t"
| "resource_loop (node # nodes) t =
     resource_loop nodes
       (if n_status node = ''online''
        then \<lparr>totalCpu = totalCpu t + nat_or0 (n_maxcpu node),
              usedCpu = fl (usedCpu t + fl (num_or0 (n_cpu node) * of_nat (nat_or0 (n_maxcpu node)))),
              totalMem = totalMem t + nat_or0 (n_maxmem node),
              usedMem = usedMem t + nat_or0 (n_mem node)\<rparr>
        else t)"

definition overview_text :: "pve_node list \<Rightarrow> string" where
  "overview_text nodes =
     (let onlineNodes = length (filter (\<lambda>n. n_status n = ''online'') nodes);
          totalNodes = length nodes
      in glyph_crane @ ''  **Proxmox Cluster Status**\<newline>\<newline>'' @
         ''**Cluster Health**: '' @
           (if onlineNodes = totalNodes then glyph_green @ '' Healthy'' else glyph_yellow @ '' Warning'') @
           ''\<newline>'' @
         ''**Nodes**: '' @ show_nat onlineNodes @ ''/'' @ show_nat totalNodes @ '' online\<newline>\<newline>'')"

definition resource_text :: "world \<Rightarrow> pve_node list \<Rightarrow> string" where
  "resource_text w nodes =
     (let t = resource_loop nodes \<lparr>totalCpu = 0, usedCpu = 0, totalMem = 0, usedMem = 0\<rparr>;
          cpuPercent = (if totalCpu t > 0 then percent1 (usedCpu t) (of_nat (totalCpu t)) else ''N/A'');
          memPercent = (if totalMem t > 0 then percent1 (of_nat (usedMem t)) (of_nat (totalMem t))
                        else ''N/A'')
      in ''**Resource Usage**:\<newline>'' @
         bullet @ '' CPU: '' @ cpuPercent @ ''% ('' @ toFixed 1 (usedCpu t) @ ''/'' @
           show_nat (totalCpu t) @ '' cores)\<newline>'' @
         bullet @ '' Memory: '' @ memPercent @ ''% ('' @ formatBytes (Math_log w) (usedMem t) @ ''/'' @
           formatBytes (Math_log w) (totalMem t) @ '')\<newline>\<newline>'')"

definition limited_text :: string where
  "limited_text =
     glyph_warning @
     ''  **Limited Information**: Resource usage requires elevated permissions\<newline>\<newline>''"

definition node_details_text :: "world \<Rightarrow> pve_node list \<Rightarrow> string" where
  "node_details_text w nodes =
     foldl (\<lambda>output node.
              output @ (if n_status node = ''online'' then glyph_green else glyph_red) @ '' '' @
              n_node node @ '' - '' @ n_status node @ ''\<newline>'')
       ''**Node Details**:\<newline>''
       (sort_cmp (\<lambda>a b. localeCompare w (n_node a) (n_node b)) nodes)"

definition cluster_text :: "world \<Rightarrow> pve_node list \<Rightarrow> string" where
  "cluster_text w nodes =
     overview_text nodes @
     (if allowElevated w then resource_text w nodes else limited_text) @
     node_details_text w nodes"

definition cluster_failure_text :: "string \<Rightarrow> string" where
  "cluster_failure_text message =
     glyph_cross @ '' **Failed to get cluster status**\<newline>\<newline>Error: '' @ message"

definition getClusterStatus :: "world \<Rightarrow> payload io" where
  "getClusterStatus w =
     io_catch
       (io_bind (proxmoxRequest w (parse_nodes w) ''/nodes'' ''GET'' NoBody)
          (\<lambda>nodes.
             io_bind
               (if allowElevated w
                then io_catch
                       (io_bind
                          (proxmoxRequest w (parse_cluster_status w) ''/cluster/status'' ''GET'' NoBody)
                          (\<lambda>clusterStatus. io_return ()))
                       (\<lambda>message. io_return ())
                else io_return ())
               (\<lambda>_. io_return (text_payload (cluster_text w nodes)))))
       (\<lambda>message. io_return (text_payload (cluster_failure_text message)))"

section \<open>Dispatcher\<close>

text \<open>
  The request carries a name and, optionally, an arguments object. Reading a property of
  a missing arguments object throws a \<^verbatim>\<open>TypeError\<close>; every handler that takes arguments
  reads \<^verbatim>\<open>args.node\<close> first.
\<close>

definition no_args_message :: string where
  "no_args_message =
     ''Cannot read properties of undefined (reading '' @ [CHR 0x27] @ ''node'' @ [CHR 0x27] @ '')''"

definition with_args :: "arguments option \<Rightarrow> (arguments \<Rightarrow> 'a io) \<Rightarrow> 'a io" where
  "with_args args f = (case args of None \<Rightarrow> io_throw no_args_message | Some a \<Rightarrow> f a)"

definition switch_tool :: "world \<Rightarrow> string \<Rightarrow> arguments option \<Rightarrow> payload io" where
  "switch_tool w name args =
     (if name = ''proxmox_get_nodes'' then getNodes w
      else if name = ''proxmox_get_node_status''
        then with_args args (\<lambda>a. getNodeStatus w (arg_node a))
      else if name = ''proxmox_get_vms''
        then with_args args (\<lambda>a. getVMs w (arg_node a) (arg_type a))
      else if name = ''proxmox_get_vm_status''
        then with_args args (\<lambda>a. getVMStatus w (arg_node a) (arg_vmid a) (arg_type a))
      else if name = ''proxmox_execute_vm_command''
        then with_args args
               (\<lambda>a. executeVMCommand w (arg_node a) (arg_vmid a) (arg_command a) (arg_type a))
      else if name = ''proxmox_get_storage''
        then with_args args (\<lambda>a. getStorage w (arg_node a))
      else if name = ''proxmox_get_cluster_status'' then getClusterStatus w
      else io_throw (''Unknown tool: '' @ name))"

definition CallTool :: "world \<Rightarrow> string \<Rightarrow> arguments option \<Rightarrow> payload io" where
  "CallTool w name args =
     io_catch (switch_tool w name args)
       (\<lambda>message. io_return (text_payload (''Error: '' @ message)))"

section \<open>A test backend\<close>

text \<open>
  A backend for concrete runs: it answers every call with status 200 and the URL of the
  call as its text, so that the parsers can answer each endpoint with its own data.
  The host's collation is the order of the bytes. Its logarithm is given at the
  arguments of the runs below, with the binary64 values that \<^verbatim>\<open>Math.log\<close> has there:
  \<^verbatim>\<open>Math.log(1024) = 6.931471805599453\<close>, \<^verbatim>\<open>Math.log(750) = 6.620073206530356\<close>,
  \<^verbatim>\<open>Math.log(1536) = 7.336936913707618\<close>, \<^verbatim>\<open>Math.log(2000) = 7.600902459542082\<close> and
  \<^verbatim>\<open>Math.log(1125899906842623) = 34.657359027997266\<close>, each the binary64 number nearest
  to the logarithm. No run reads it at another argument, where it is left 0.
\<close>

definition binary64_log :: "nat \<Rightarrow> rat" where
  "binary64_log n =
     (if n = 1024 then 7804143460206699 / 1125899906842624
      else if n = 750 then 7453539806523879 / 1125899906842624
      else if n = 1536 then 516291036728351 / 70368744177664
      else if n = 2000 then 4278927685559151 / 562949953421312
      else if n = 1125899906842623 then 4877589662629187 / 140737488355328
      else 0)"

definition echo_fetch :: "call list \<Rightarrow> call \<Rightarrow> fetch_outcome" where
  "echo_fetch made c = Resolved \<lparr>r_ok = True, r_status = 200, r_text = c_url c\<rparr>"

fun compare_bytes :: "string \<Rightarrow> string \<Rightarrow> int" where
  "compare_bytes [] [] = 0"
| "compare_bytes [] (y # ys) = - 1"
| "compare_bytes (x # xs) [] = 1"
| "compare_bytes (x # xs) (y # ys) =
     (if (of_char x :: nat) < of_char y then - 1
      else if (of_char y :: nat) < of_char x then 1
      else compare_bytes xs ys)"

definition no_guest :: guest where
  "no_guest =
     \<lparr>g_vmid = 0, g_name = None, g_status = ''stopped'', g_node = None, g_uptime = None,
      g_cpu = None, g_mem = None, g_maxmem = None, g_diskread = None, g_diskwrite = None,
      g_netin = None, g_netout = None\<rparr>"

definition no_node_status :: node_status where
  "no_node_status =
     \<lparr>ns_uptime = None, ns_loadavg = None, ns_cpu = None, ns_memory = None, ns_rootfs = None\<rparr>"

definition test_world ::
  "bool \<Rightarrow> (string \<Rightarrow> pve_node list) \<Rightarrow> (string \<Rightarrow> guest list) \<Rightarrow> (string \<Rightarrow> storage list) \<Rightarrow> world" where
  "test_world elevated nodes guests storages =
     \<lparr>proxmoxHost = ''pve'', proxmoxUser = ''root@pam'', proxmoxTokenName = ''mcpserver'',
      proxmoxTokenValue = Some ''secret'', proxmoxPort = ''8006'', allowElevated = elevated,
      fetch = echo_fetch, Math_log = binary64_log, localeCompare = compare_bytes,
      parse_nodes = (\<lambda>t. Inr (nodes t)),
      parse_node_status = (\<lambda>t. Inr no_node_status),
      parse_guests = (\<lambda>t. Inr (guests t)),
      parse_guest = (\<lambda>t. Inr no_guest),
      parse_agent_exec = (\<lambda>t. Inr None),
      parse_lxc_exec = (\<lambda>t. Inr None),
      parse_storages = (\<lambda>t. Inr (storages t)),
      parse_cluster_status = (\<lambda>t. Inr ())\<rparr>"

text \<open>The same backend with nothing to list.\<close>

definition empty_world :: "bool \<Rightarrow> world" where
  "empty_world elevated = test_world elevated (\<lambda>t. []) (\<lambda>t. []) (\<lambda>t. [])"

text \<open>A backend that refuses every call with status 500.\<close>

definition refusing_world :: world where
  "refusing_world =
     (empty_world False)
       \<lparr>fetch := (\<lambda>made c. Resolved \<lparr>r_ok = False, r_status = 500, r_text = ''permission denied''\<rparr>)\<rparr>"

text \<open>Example data: a node, a guest and a storage entry with nothing but their names.\<close>

definition named_node :: "string \<Rightarrow> pve_node" where
  "named_node name =
     \<lparr>n_node = name, n_status = ''online'', n_uptime = None, n_cpu = None, n_mem = None,
      n_maxmem = None, n_maxcpu = None, n_loadavg = None\<rparr>"

definition stopped_guest :: "nat \<Rightarrow> guest" where
  "stopped_guest vmid = no_guest\<lparr>g_vmid := vmid\<rparr>"

definition named_storage :: "string \<Rightarrow> storage" where
  "named_storage name =
     \<lparr>st_storage = name, st_type = Some ''dir'', st_content = None, st_enabled = Some 1,
      st_total = None, st_used = None\<rparr>"

text \<open>Node \<^verbatim>\<open>pve1\<close> with one virtual machine and one container.\<close>

definition pve1_guests :: "string \<Rightarrow> guest list" where
  "pve1_guests t =
     (if t = ''https://pve:8006/api2/json/nodes/pve1/qemu'' then [stopped_guest 100]
      else if t = ''https://pve:8006/api2/json/nodes/pve1/lxc'' then [stopped_guest 200]
      else [])"

definition pve1_world :: world where
  "pve1_world = test_world False (\<lambda>t. [named_node ''pve1'']) pve1_guests (\<lambda>t. [])"

text \<open>
  Two nodes \<^verbatim>\<open>pve\<close> and \<^verbatim>\<open>lvm-pve\<close>; the first has the storage \<^verbatim>\<open>local-lvm\<close>, the second
  the storage \<^verbatim>\<open>local\<close>.
\<close>

definition hyphen_storages :: "string \<Rightarrow> storage list" where
  "hyphen_storages t =
     (if t = ''https://pve:8006/api2/json/nodes/pve/storage'' then [named_storage ''local-lvm'']
      else if t = ''https://pve:8006/api2/json/nodes/lvm-pve/storage'' then [named_storage ''local'']
      else [])"

definition hyphen_world :: world where
  "hyphen_world =
     test_world False (\<lambda>t. [named_node ''pve'', named_node ''lvm-pve'']) (\<lambda>t. []) hyphen_storages"

text \<open>
  An idle node \<^verbatim>\<open>pve1\<close>: its load averages are 0, and its status reports 0 bytes in use
  of 1024 bytes of memory and of root disk, after one minute of uptime.
\<close>

definition idle_node :: pve_node where
  "idle_node = (named_node ''pve1'')\<lparr>n_loadavg := Some [0, 0, 0]\<rparr>"

definition idle_status :: node_status where
  "idle_status =
     \<lparr>ns_uptime = Some 60, ns_loadavg = Some [''0'', ''0'', ''0''], ns_cpu = None,
      ns_memory = Some \<lparr>u_used = 0, u_total = 1024\<rparr>,
      ns_rootfs = Some \<lparr>u_used = 0, u_total = 1024\<rparr>\<rparr>"

definition idle_world :: world where
  "idle_world =
     (test_world True (\<lambda>t. [idle_node]) (\<lambda>t. []) (\<lambda>t. []))
       \<lparr>parse_node_status := (\<lambda>t. Inr idle_status)\<rparr>"

section \<open>The aggregate of cluster-status in the words of the specification\<close>

text \<open>
  Sums over the online nodes: the capacities and the memory in use are sums of integers,
  the CPU in use is the sum of the products \<open>cpu \<times> maxcpu\<close> in binary64 arithmetic, taken
  in the order of the nodes. A share of a capacity is a percentage with one decimal, or
  \<^verbatim>\<open>N/A\<close> when the capacity is zero.
\<close>

definition online :: "pve_node list \<Rightarrow> pve_node list" where
  "online nodes = filter (\<lambda>n. n_status n = ''online'') nodes"

definition float_sum_from :: "rat \<Rightarrow> rat list \<Rightarrow> rat" where
  "float_sum_from a xs = foldl (\<lambda>a x. fl (a + x)) a xs"

definition spec_cpu_capacity :: "pve_node list \<Rightarrow> nat" where
  "spec_cpu_capacity nodes = sum_list (map (\<lambda>n. nat_or0 (n_maxcpu n)) (online nodes))"

definition spec_cpu_used :: "pve_node list \<Rightarrow> rat" where
  "spec_cpu_used nodes =
     float_sum_from 0
       (map (\<lambda>n. fl (num_or0 (n_cpu n) * of_nat (nat_or0 (n_maxcpu n)))) (online nodes))"

definition spec_mem_capacity :: "pve_node list \<Rightarrow> nat" where
  "spec_mem_capacity nodes = sum_list (map (\<lambda>n. nat_or0 (n_maxmem n)) (online nodes))"

definition spec_mem_used :: "pve_node list \<Rightarrow> nat" where
  "spec_mem_used nodes = sum_list (map (\<lambda>n. nat_or0 (n_mem n)) (online nodes))"

definition spec_percent :: "rat \<Rightarrow> rat \<Rightarrow> string" where
  "spec_percent used capacity =
     (if capacity = 0 then ''N/A'' else toFixed 1 (fl (fl (used / capacity) * 100)))"

text \<open>The scenario of the specification: two online nodes.\<close>

definition two_online_nodes :: "pve_node list" where
  "two_online_nodes =
     [\<lparr>n_node = ''pve1'', n_status = ''online'', n_uptime = None, n_cpu = Some (1 / 2),
       n_mem = Some 500, n_maxmem = Some 1000, n_maxcpu = Some 2, n_loadavg = None\<rparr>,
      \<lparr>n_node = ''pve2'', n_status = ''online'', n_uptime = None, n_cpu = Some (1 / 4),
       n_mem = Some 250, n_maxmem = Some 1000, n_maxcpu = Some 2, n_loadavg = None\<rparr>]"

definition two_nodes_world :: world where
  "two_nodes_world = test_world True (\<lambda>t. two_online_nodes) (\<lambda>t. []) (\<lambda>t. [])"

section \<open>The text of a byte count in the words of the specification\<close>

text \<open>
  The unit index \<open>\<lfloor>log\<^sub>1\<^sub>0\<^sub>2\<^sub>4 n\<rfloor>\<close> of a count that is not zero, in integer arithmetic; the
  count scaled to the unit of index \<open>i\<close> and rounded to two decimals, as a number of
  hundredths; the shortest decimal that equals a number of hundredths; and the number
  that a decimal is read back as.
\<close>

fun floor_log1024 :: "nat \<Rightarrow> nat" where
  "floor_log1024 n = (if n < 1024 then 0 else Suc (floor_log1024 (n div 1024)))"

declare floor_log1024.simps [simp del]

definition hundredths :: "nat \<Rightarrow> nat \<Rightarrow> nat" where
  "hundredths b i = nat \<lfloor>(of_nat b / of_nat (1024 ^ i) :: rat) * 100 + 1 / 2\<rfloor>"

definition shortest_decimal :: "nat \<Rightarrow> string" where
  "shortest_decimal n =
     (if n mod 100 = 0 then show_nat (n div 100)
      else if n mod 10 = 0 then show_nat (n div 100) @ ''.'' @ [digit (n div 10 mod 10)]
      else show_nat (n div 100) @ ''.'' @ [digit (n div 10 mod 10), digit (n mod 10)])"

definition digit_value :: "char \<Rightarrow> nat" where
  "digit_value c = of_char c - 48"

definition digits_value :: "string \<Rightarrow> nat" where
  "digits_value s = foldl (\<lambda>a c. 10 * a + digit_value c) 0 s"

definition decimal_value :: "string \<Rightarrow> rat" where
  "decimal_value s =
     (let whole = takeWhile (\<lambda>c. c \<noteq> CHR ''.'') s;
          fraction = drop 1 (dropWhile (\<lambda>c. c \<noteq> CHR ''.'') s)
      in of_nat (digits_value whole) + of_nat (digits_value fraction) / 10 ^ length fraction)"

section \<open>Properties\<close>

subsection \<open>Dispatch of an unknown operation\<close>

lemma catalog_names:
  "map d_name catalog =
     [''proxmox_get_nodes'', ''proxmox_get_node_status'', ''proxmox_get_vms'',
      ''proxmox_get_vm_status'', ''proxmox_execute_vm_command'', ''proxmox_get_storage'',
      ''proxmox_get_cluster_status'']"
  by (simp add: catalog_def)

text \<open>
  C9. A request for a name that the catalog does not have returns the payload with the
  single text \<^verbatim>\<open>Error: Unknown tool: <name>\<close>; no error leaves the dispatcher, and no
  backend call is made.
\<close>

theorem unknown_tool_error:
  assumes "name \<notin> set (map d_name catalog)"
  shows "CallTool w name args made = (Inr [Text (''Error: Unknown tool: '' @ name)], made)"
proof -
  from assms have "name \<noteq> ''proxmox_get_nodes''" "name \<noteq> ''proxmox_get_node_status''"
    "name \<noteq> ''proxmox_get_vms''" "name \<noteq> ''proxmox_get_vm_status''"
    "name \<noteq> ''proxmox_execute_vm_command''" "name \<noteq> ''proxmox_get_storage''"
    "name \<noteq> ''proxmox_get_cluster_status''"
    unfolding catalog_names by auto
  then have "switch_tool w name args = io_throw (''Unknown tool: '' @ name)"
    by (simp add: switch_tool_def)
  then show ?thesis
    by (simp add: CallTool_def io_catch_def io_throw_def io_return_def text_payload_def)
qed

theorem unknown_tool_error_witness:
  "''proxmox_reboot'' \<notin> set (map d_name catalog) \<and>
   CallTool (empty_world False) ''proxmox_reboot'' None [] =
     (Inr [Text ''Error: Unknown tool: proxmox_reboot''], [])"
proof -
  have h: "''proxmox_reboot'' \<notin> set (map d_name catalog)"
    unfolding catalog_names by simp
  show ?thesis
    using h unknown_tool_error [OF h, of "empty_world False" None "[]"] by simp
qed

subsection \<open>Uptime\<close>

lemma uptime_bounds_aux:
  fixes d r h r2 m r3 s :: nat
  assumes "d * 86400 + r = s" "h * 3600 + r2 = r" "m * 60 + r3 = r2" "r3 < 60"
  shows "d * 86400 + h * 3600 + m * 60 \<le> s \<and> s < d * 86400 + h * 3600 + m * 60 + 60"
  using assms by linarith

lemma uptime_bounds:
  fixes s :: nat
  shows "s div 86400 * 86400 + (s mod 86400) div 3600 * 3600 + (s mod 3600) div 60 * 60 \<le> s \<and>
         s < s div 86400 * 86400 + (s mod 86400) div 3600 * 3600 + (s mod 3600) div 60 * 60 + 60"
proof -
  have m: "(s mod 86400) mod 3600 = s mod 3600"
    by (rule mod_mod_cancel) simp
  have a1: "s div 86400 * 86400 + s mod 86400 = s"
    by (rule div_mult_mod_eq)
  have a2: "(s mod 86400) div 3600 * 3600 + s mod 3600 = s mod 86400"
    using div_mult_mod_eq [of "s mod 86400" 3600] unfolding m .
  have a3: "(s mod 3600) div 60 * 60 + (s mod 3600) mod 60 = s mod 3600"
    by (rule div_mult_mod_eq)
  have b: "(s mod 3600) mod 60 < 60"
    by (rule mod_less_divisor) simp
  show ?thesis
    by (rule uptime_bounds_aux [OF a1 a2 a3 b])
qed

text \<open>
  C7. For a duration of \<open>s\<close> seconds, with days \<open>s div 86400\<close>, hours
  \<open>(s mod 86400) div 3600\<close> and minutes \<open>(s mod 3600) div 60\<close>, the three units account
  for \<open>s\<close> up to less than a minute, and \<open>formatUptime\<close> prints days, hours and minutes
  when the days are not zero, hours and minutes when only the days are zero, and the
  minutes alone otherwise; it prints no seconds.
\<close>

theorem formatUptime_spec:
  "(let days = s div 86400;
        hours = (s mod 86400) div 3600;
        minutes = (s mod 3600) div 60
    in days * 86400 + hours * 3600 + minutes * 60 \<le> s \<and>
       s < days * 86400 + hours * 3600 + minutes * 60 + 60 \<and>
       formatUptime s =
         (if days > 0
          then show_nat days @ ''d '' @ show_nat hours @ ''h '' @ show_nat minutes @ ''m''
          else if hours > 0 then show_nat hours @ ''h '' @ show_nat minutes @ ''m''
          else show_nat minutes @ ''m''))"
  using uptime_bounds [of s] by (simp add: formatUptime_def Let_def)

subsection \<open>An HTTP error of the backend\<close>

lemma show_nat_500: "show_nat 500 = ''500''"
  by (simp add: show_nat.simps digit_def)

text \<open>
  C3. When the backend answers the call to \<^verbatim>\<open>/nodes\<close> with status 500 and the body
  \<^verbatim>\<open>permission denied\<close>, list-nodes returns the payload whose text is exactly
  \<^verbatim>\<open>Error: Failed to connect to Proxmox: Proxmox API error: 500 - permission denied\<close>: the
  client wraps its own HTTP error as a connection failure, and the dispatcher adds
  \<^verbatim>\<open>Error: \<close>.
\<close>

theorem list_nodes_http_500:
  assumes "fetch w made (mk_call w ''/nodes'' ''GET'' NoBody) =
             Resolved \<lparr>r_ok = False, r_status = 500, r_text = ''permission denied''\<rparr>"
  shows "CallTool w ''proxmox_get_nodes'' args made =
           (Inr [Text ''Error: Failed to connect to Proxmox: Proxmox API error: 500 - permission denied''],
            made @ [mk_call w ''/nodes'' ''GET'' NoBody])"
proof -
  have "proxmoxRequest w (parse_nodes w) ''/nodes'' ''GET'' NoBody made =
          (Inl ''Failed to connect to Proxmox: Proxmox API error: 500 - permission denied'',
           made @ [mk_call w ''/nodes'' ''GET'' NoBody])"
    using assms by (simp add: proxmoxRequest_def Let_def show_nat_500)
  then show ?thesis
    by (simp add: CallTool_def switch_tool_def getNodes_def io_bind_def io_catch_def
        io_return_def text_payload_def)
qed

theorem list_nodes_http_500_witness:
  "fetch refusing_world [] (mk_call refusing_world ''/nodes'' ''GET'' NoBody) =
     Resolved \<lparr>r_ok = False, r_status = 500, r_text = ''permission denied''\<rparr> \<and>
   fst (CallTool refusing_world ''proxmox_get_nodes'' None []) =
     Inr [Text ''Error: Failed to connect to Proxmox: Proxmox API error: 500 - permission denied''] \<and>
   map c_url (snd (CallTool refusing_world ''proxmox_get_nodes'' None [])) =
     [''https://pve:8006/api2/json/nodes'']"
proof -
  have h: "fetch refusing_world [] (mk_call refusing_world ''/nodes'' ''GET'' NoBody) =
     Resolved \<lparr>r_ok = False, r_status = 500, r_text = ''permission denied''\<rparr>"
    by (simp add: refusing_world_def)
  have u: "c_url (mk_call refusing_world ''/nodes'' ''GET'' NoBody) = ''https://pve:8006/api2/json/nodes''"
    by (simp add: mk_call_def baseUrl_def refusing_world_def empty_world_def test_world_def)
  show ?thesis
    using h u list_nodes_http_500 [OF h, of None] by simp
qed

subsection \<open>The elevated-access gate\<close>

lemma mk_call_elevated [simp]: "mk_call (w\<lparr>allowElevated := b\<rparr>) = mk_call w"
  by (simp add: mk_call_def baseUrl_def auth_header_def fun_eq_iff)

lemma proxmoxRequest_elevated [simp]:
  "proxmoxRequest (w\<lparr>allowElevated := b\<rparr>) = proxmoxRequest w"
  by (simp add: proxmoxRequest_def fun_eq_iff)

lemma vms_of_node_elevated [simp]: "vms_of_node (w\<lparr>allowElevated := b\<rparr>) = vms_of_node w"
  by (simp add: vms_of_node_def fun_eq_iff cong: if_cong)

lemma vms_of_nodes_elevated_at:
  "vms_of_nodes (w\<lparr>allowElevated := b\<rparr>) t nodes vms made = vms_of_nodes w t nodes vms made"
  by (induction nodes arbitrary: vms made) (simp_all split: prod.splits sum.splits)

lemma vms_of_nodes_elevated [simp]:
  "vms_of_nodes (w\<lparr>allowElevated := b\<rparr>) t nodes vms = vms_of_nodes w t nodes vms"
  by (rule ext) (rule vms_of_nodes_elevated_at)

lemma vms_text_elevated [simp]: "vms_text (w\<lparr>allowElevated := b\<rparr>) = vms_text w"
  by (simp add: vms_text_def vm_block_def fun_eq_iff Let_def cong: if_cong)

lemma vm_status_text_elevated [simp]:
  "vm_status_text (w\<lparr>allowElevated := b\<rparr>) = vm_status_text w"
  by (simp add: vm_status_text_def fun_eq_iff Let_def cong: if_cong)

text \<open>
  C4, as it fails. A request for node-status or guest-exec that carries no arguments
  object, with the elevated-access flag false, is answered with the message of the
  \<^verbatim>\<open>TypeError\<close> of reading \<^verbatim>\<open>args.node\<close>, not with the instructional text: the dispatcher reads
  the arguments before the handler tests the flag.
\<close>

theorem gate_without_arguments:
  "\<not> allowElevated (empty_world False) \<and>
   CallTool (empty_world False) ''proxmox_get_node_status'' None [] =
     (Inr [Text (''Error: Cannot read properties of undefined (reading '' @ [CHR 0x27] @ ''node'' @ [CHR 0x27] @ '')'')], []) \<and>
   CallTool (empty_world False) ''proxmox_execute_vm_command'' None [] =
     (Inr [Text (''Error: Cannot read properties of undefined (reading '' @ [CHR 0x27] @ ''node'' @ [CHR 0x27] @ '')'')], []) \<and>
   CallTool (empty_world False) ''proxmox_get_node_status'' None [] \<noteq>
     (Inr [Text ([CHR 0xE2, CHR 0x9A, CHR 0xA0, CHR 0xEF, CHR 0xB8, CHR 0x8F] @
         ''  **Node Status Requires Elevated Permissions**\<newline>\<newline>'' @
         ''To view detailed node status, set `PROXMOX_ALLOW_ELEVATED=true` in your .env file '' @
         ''and ensure your API token has Sys.Audit permissions.\<newline>\<newline>'' @
         ''**Current permissions**: Basic (node listing only)'')], [])"
  by (simp add: CallTool_def switch_tool_def with_args_def io_catch_def io_throw_def io_return_def
      text_payload_def no_args_message_def empty_world_def test_world_def)

text \<open>
  C4, amended. With the elevated-access flag false, the handlers of node-status and
  guest-exec return their instructional text, whatever their parameters, and leave the
  calls made to the backend as they were; the text of guest-exec ends with the requested
  command, \<^verbatim>\<open>undefined\<close> when there is none. So does the dispatcher for a request that carries
  an arguments object; for a request without one it returns the error of reading
  \<^verbatim>\<open>args.node\<close>, again without a backend call. guest-status and list-guests, called directly
  or through the dispatcher, compute the same whatever the flag is set to. (The warning
  sign followed by the variation selector is the byte sequence E2 9A A0 EF B8 8F.)
\<close>

theorem elevated_gate:
  assumes "\<not> allowElevated w"
  shows "getNodeStatus w node made =
           (Inr [Text ([CHR 0xE2, CHR 0x9A, CHR 0xA0, CHR 0xEF, CHR 0xB8, CHR 0x8F] @
         ''  **Node Status Requires Elevated Permissions**\<newline>\<newline>'' @
         ''To view detailed node status, set `PROXMOX_ALLOW_ELEVATED=true` in your .env file '' @
         ''and ensure your API token has Sys.Audit permissions.\<newline>\<newline>'' @
         ''**Current permissions**: Basic (node listing only)'')], made) \<and>
         executeVMCommand w node vmid command type made =
           (Inr [Text ([CHR 0xE2, CHR 0x9A, CHR 0xA0, CHR 0xEF, CHR 0xB8, CHR 0x8F] @
         ''  **VM Command Execution Requires Elevated Permissions**\<newline>\<newline>'' @
         ''To execute commands on VMs, set `PROXMOX_ALLOW_ELEVATED=true` in your .env file '' @
         ''and ensure your API token has appropriate VM permissions.\<newline>\<newline>'' @
         ''**Current permissions**: Basic (VM listing only)\<newline>'' @
         ''**Requested command**: `'' @ (case command of None \<Rightarrow> ''undefined'' | Some c \<Rightarrow> c) @ ''`'')], made) \<and>
         CallTool w ''proxmox_get_node_status'' (Some a) made =
           (Inr [Text ([CHR 0xE2, CHR 0x9A, CHR 0xA0, CHR 0xEF, CHR 0xB8, CHR 0x8F] @
         ''  **Node Status Requires Elevated Permissions**\<newline>\<newline>'' @
         ''To view detailed node status, set `PROXMOX_ALLOW_ELEVATED=true` in your .env file '' @
         ''and ensure your API token has Sys.Audit permissions.\<newline>\<newline>'' @
         ''**Current permissions**: Basic (node listing only)'')], made) \<and>
         CallTool w ''proxmox_execute_vm_command'' (Some a) made =
           (Inr [Text ([CHR 0xE2, CHR 0x9A, CHR 0xA0, CHR 0xEF, CHR 0xB8, CHR 0x8F] @
         ''  **VM Command Execution Requires Elevated Permissions**\<newline>\<newline>'' @
         ''To execute commands on VMs, set `PROXMOX_ALLOW_ELEVATED=true` in your .env file '' @
         ''and ensure your API token has appropriate VM permissions.\<newline>\<newline>'' @
         ''**Current permissions**: Basic (VM listing only)\<newline>'' @
         ''**Requested command**: `'' @ (case arg_command a of None \<Rightarrow> ''undefined'' | Some c \<Rightarrow> c) @ ''`'')], made) \<and>
         CallTool w ''proxmox_get_node_status'' None made =
           (Inr [Text (''Error: Cannot read properties of undefined (reading '' @ [CHR 0x27] @ ''node'' @ [CHR 0x27] @ '')'')], made) \<and>
         CallTool w ''proxmox_execute_vm_command'' None made =
           (Inr [Text (''Error: Cannot read properties of undefined (reading '' @ [CHR 0x27] @ ''node'' @ [CHR 0x27] @ '')'')], made) \<and>
         getVMStatus (w\<lparr>allowElevated := b\<rparr>) node vmid type = getVMStatus w node vmid type \<and>
         getVMs (w\<lparr>allowElevated := b\<rparr>) nodeFilter typeFilter = getVMs w nodeFilter typeFilter \<and>
         CallTool (w\<lparr>allowElevated := b\<rparr>) ''proxmox_get_vm_status'' args =
           CallTool w ''proxmox_get_vm_status'' args \<and>
         CallTool (w\<lparr>allowElevated := b\<rparr>) ''proxmox_get_vms'' args = CallTool w ''proxmox_get_vms'' args"
proof -
  have 1: "getNodeStatus w node made = (Inr [Text node_status_gate_text], made)" for node
    using assms by (simp add: getNodeStatus_def io_return_def text_payload_def)
  have 2: "executeVMCommand w node vmid command type made =
             (Inr [Text (exec_gate_text command)], made)" for node vmid command type
    using assms by (simp add: executeVMCommand_def io_return_def text_payload_def)
  have 3: "getVMStatus (w\<lparr>allowElevated := b\<rparr>) node vmid type = getVMStatus w node vmid type"
    for node vmid type
    by (simp add: getVMStatus_def Let_def)
  have 4: "getVMs (w\<lparr>allowElevated := b\<rparr>) nodeFilter typeFilter = getVMs w nodeFilter typeFilter"
    for nodeFilter typeFilter
    by (simp add: getVMs_def Let_def cong: if_cong)
  have 5: "CallTool w ''proxmox_get_node_status'' (Some a) made =
             (Inr [Text node_status_gate_text], made)"
    by (simp add: CallTool_def switch_tool_def with_args_def io_catch_def 1)
  have 6: "CallTool w ''proxmox_execute_vm_command'' (Some a) made =
             (Inr [Text (exec_gate_text (arg_command a))], made)"
    by (simp add: CallTool_def switch_tool_def with_args_def io_catch_def 2)
  have 7: "CallTool (w\<lparr>allowElevated := b\<rparr>) ''proxmox_get_vm_status'' args =
             CallTool w ''proxmox_get_vm_status'' args"
    by (simp add: CallTool_def switch_tool_def 3)
  have 8: "CallTool (w\<lparr>allowElevated := b\<rparr>) ''proxmox_get_vms'' args =
             CallTool w ''proxmox_get_vms'' args"
    by (simp add: CallTool_def switch_tool_def 4)
  have 9: "CallTool w ''proxmox_get_node_status'' None made =
             (Inr [Text (''Error: '' @ no_args_message)], made)"
    by (simp add: CallTool_def switch_tool_def with_args_def io_catch_def io_throw_def
        io_return_def text_payload_def)
  have 10: "CallTool w ''proxmox_execute_vm_command'' None made =
             (Inr [Text (''Error: '' @ no_args_message)], made)"
    by (simp add: CallTool_def switch_tool_def with_args_def io_catch_def io_throw_def
        io_return_def text_payload_def)
  have n: "node_status_gate_text =
         [CHR 0xE2, CHR 0x9A, CHR 0xA0, CHR 0xEF, CHR 0xB8, CHR 0x8F] @
         ''  **Node Status Requires Elevated Permissions**\<newline>\<newline>'' @
         ''To view detailed node status, set `PROXMOX_ALLOW_ELEVATED=true` in your .env file '' @
         ''and ensure your API token has Sys.Audit permissions.\<newline>\<newline>'' @
         ''**Current permissions**: Basic (node listing only)''"
    by (simp add: node_status_gate_text_def glyph_warning_def)
  have e: "exec_gate_text c =
         [CHR 0xE2, CHR 0x9A, CHR 0xA0, CHR 0xEF, CHR 0xB8, CHR 0x8F] @
         ''  **VM Command Execution Requires Elevated Permissions**\<newline>\<newline>'' @
         ''To execute commands on VMs, set `PROXMOX_ALLOW_ELEVATED=true` in your .env file '' @
         ''and ensure your API token has appropriate VM permissions.\<newline>\<newline>'' @
         ''**Current permissions**: Basic (VM listing only)\<newline>'' @
         ''**Requested command**: `'' @ (case c of None \<Rightarrow> ''undefined'' | Some c \<Rightarrow> c) @ ''`''" for c
    by (simp add: exec_gate_text_def glyph_warning_def js_str_def)
  have m: "''Error: '' @ no_args_message = ''Error: Cannot read properties of undefined (reading '' @ [CHR 0x27] @ ''node'' @ [CHR 0x27] @ '')''"
    by (simp add: no_args_message_def)
  show ?thesis
    unfolding n [symmetric] e [symmetric] m [symmetric]
    using 1 2 3 4 5 6 7 8 9 10 by blast
qed

text \<open>
  On the test backend with the flag false and the request
  \<^verbatim>\<open>{node: 'pve1', vmid: '100', command: 'uptime'}\<close>: both gated operations answer with
  their instructional text and no call is made; guest-status makes its one call and
  prints the guest, as it does with the flag true.
\<close>

theorem elevated_gate_witness:
  "\<not> allowElevated (empty_world False) \<and>
   CallTool (empty_world False) ''proxmox_get_node_status''
     (Some \<lparr>arg_node = Some ''pve1'', arg_vmid = Some ''100'', arg_command = Some ''uptime'',
            arg_type = None\<rparr>) [] =
     (Inr [Text ([CHR 0xE2, CHR 0x9A, CHR 0xA0, CHR 0xEF, CHR 0xB8, CHR 0x8F] @
         ''  **Node Status Requires Elevated Permissions**\<newline>\<newline>'' @
         ''To view detailed node status, set `PROXMOX_ALLOW_ELEVATED=true` in your .env file '' @
         ''and ensure your API token has Sys.Audit permissions.\<newline>\<newline>'' @
         ''**Current permissions**: Basic (node listing only)'')], []) \<and>
   CallTool (empty_world False) ''proxmox_execute_vm_command''
     (Some \<lparr>arg_node = Some ''pve1'', arg_vmid = Some ''100'', arg_command = Some ''uptime'',
            arg_type = None\<rparr>) [] =
     (Inr [Text ([CHR 0xE2, CHR 0x9A, CHR 0xA0, CHR 0xEF, CHR 0xB8, CHR 0x8F] @
         ''  **VM Command Execution Requires Elevated Permissions**\<newline>\<newline>'' @
         ''To execute commands on VMs, set `PROXMOX_ALLOW_ELEVATED=true` in your .env file '' @
         ''and ensure your API token has appropriate VM permissions.\<newline>\<newline>'' @
         ''**Current permissions**: Basic (VM listing only)\<newline>'' @
         ''**Requested command**: `'' @ ''uptime'' @ ''`'')], []) \<and>
   CallTool ((empty_world False)\<lparr>allowElevated := True\<rparr>) ''proxmox_get_vm_status''
     (Some \<lparr>arg_node = Some ''pve1'', arg_vmid = Some ''100'', arg_command = Some ''uptime'',
            arg_type = None\<rparr>) [] =
   CallTool (empty_world False) ''proxmox_get_vm_status''
     (Some \<lparr>arg_node = Some ''pve1'', arg_vmid = Some ''100'', arg_command = Some ''uptime'',
            arg_type = None\<rparr>) [] \<and>
   CallTool (empty_world False) ''proxmox_get_vm_status''
     (Some \<lparr>arg_node = Some ''pve1'', arg_vmid = Some ''100'', arg_command = Some ''uptime'',
            arg_type = None\<rparr>) [] =
     (Inr [Text ([CHR 0xF0, CHR 0x9F, CHR 0x94, CHR 0xB4] @ '' '' @
                 [CHR 0xF0, CHR 0x9F, CHR 0x96, CHR 0xA5, CHR 0xEF, CHR 0xB8, CHR 0x8F] @
                 '' **VM-100** (ID: 100)\<newline>\<newline>'' @
                 [CHR 0xE2, CHR 0x80, CHR 0xA2] @ '' **Node**: pve1\<newline>'' @
                 [CHR 0xE2, CHR 0x80, CHR 0xA2] @ '' **Status**: stopped\<newline>'' @
                 [CHR 0xE2, CHR 0x80, CHR 0xA2] @ '' **Type**: QEMU\<newline>'')],
      [\<lparr>c_url = ''https://pve:8006/api2/json/nodes/pve1/qemu/100/status/current'',
        c_method = ''GET'', c_authorization = ''PVEAPIToken=root@pam!mcpserver=secret'',
        c_body = NoBody\<rparr>])"
proof -
  have h: "\<not> allowElevated (empty_world False)"
    by (simp add: empty_world_def test_world_def)
  have up: "toUpperCase ''qemu'' = ''QEMU''"
    by code_simp
  have run: "CallTool (empty_world False) ''proxmox_get_vm_status''
     (Some \<lparr>arg_node = Some ''pve1'', arg_vmid = Some ''100'', arg_command = Some ''uptime'',
            arg_type = None\<rparr>) [] =
     (Inr [Text ([CHR 0xF0, CHR 0x9F, CHR 0x94, CHR 0xB4] @ '' '' @
                 [CHR 0xF0, CHR 0x9F, CHR 0x96, CHR 0xA5, CHR 0xEF, CHR 0xB8, CHR 0x8F] @
                 '' **VM-100** (ID: 100)\<newline>\<newline>'' @
                 [CHR 0xE2, CHR 0x80, CHR 0xA2] @ '' **Node**: pve1\<newline>'' @
                 [CHR 0xE2, CHR 0x80, CHR 0xA2] @ '' **Status**: stopped\<newline>'' @
                 [CHR 0xE2, CHR 0x80, CHR 0xA2] @ '' **Type**: QEMU\<newline>'')],
      [\<lparr>c_url = ''https://pve:8006/api2/json/nodes/pve1/qemu/100/status/current'',
        c_method = ''GET'', c_authorization = ''PVEAPIToken=root@pam!mcpserver=secret'',
        c_body = NoBody\<rparr>])"
    by (simp add: CallTool_def switch_tool_def with_args_def getVMStatus_def io_catch_def
        io_bind_def io_return_def text_payload_def proxmoxRequest_def empty_world_def
        ws3_def test_world_def echo_fetch_def mk_call_def baseUrl_def auth_header_def js_str_def
        Let_def vm_status_text_def no_guest_def status_glyph_def str_or_def
        glyph_red_def glyph_computer_def bullet_def up)
  show ?thesis
    using h run elevated_gate [OF h, where made = "[]" and b = True
        and a = "\<lparr>arg_node = Some ''pve1'', arg_vmid = Some ''100'', arg_command = Some ''uptime'',
            arg_type = None\<rparr>"
        and args = "Some \<lparr>arg_node = Some ''pve1'', arg_vmid = Some ''100'', arg_command = Some ''uptime'',
            arg_type = None\<rparr>"]
    by simp
qed

subsection \<open>Runs on the test backend\<close>

lemmas test_world_simps =
  ws3_def test_world_def echo_fetch_def mk_call_def baseUrl_def auth_header_def js_str_def

subsection \<open>The calls of list-guests with a node filter\<close>

lemma getVMs_node_filter_calls:
  assumes "truthy_str nodeFilter"
    and "proxmoxRequest w (parse_guests w) (''/nodes/'' @ js_str nodeFilter @ ''/qemu'') ''GET'' NoBody made =
           (Inr nodeVMs, made')"
  shows "snd (getVMs w nodeFilter typeFilter made) =
           made' @ [mk_call w (''/nodes/'' @ js_str nodeFilter @ ''/lxc'') ''GET'' NoBody]"
  using assms
  by (simp add: getVMs_def Let_def io_bind_def io_return_def proxmoxRequest_def
      split: fetch_outcome.splits sum.splits)

text \<open>
  C1. With a node filter, list-guests is to call the node's lxc listing endpoint only
  when the type filter is \<^verbatim>\<open>lxc\<close> or \<^verbatim>\<open>all\<close>. The handler calls both listing endpoints
  whatever the type filter is, and applies the filter to the replies: for the node
  \<^verbatim>\<open>pve1\<close> and the type \<^verbatim>\<open>qemu\<close> it calls the lxc endpoint too.
\<close>

theorem node_filter_qemu_still_calls_lxc:
  "map (\<lambda>c. (c_method c, c_url c)) (snd (getVMs pve1_world (Some ''pve1'') (Some ''qemu'') [])) =
     [(''GET'', ''https://pve:8006/api2/json/nodes/pve1/qemu''),
      (''GET'', ''https://pve:8006/api2/json/nodes/pve1/lxc'')] \<and>
   fst (getVMs pve1_world (Some ''pve1'') (Some ''qemu'') []) =
     Inr [Text (vms_text pve1_world [tag_guest ''qemu'' ''pve1'' (stopped_guest 100)])]"
proof -
  have t: "truthy_str (Some ''pve1'')"
    by (simp add: truthy_str_def)
  have q: "proxmoxRequest pve1_world (parse_guests pve1_world) ''/nodes/pve1/qemu'' ''GET'' NoBody [] =
           (Inr [stopped_guest 100],
            [mk_call pve1_world ''/nodes/pve1/qemu'' ''GET'' NoBody])"
    by (simp add: proxmoxRequest_def pve1_world_def pve1_guests_def test_world_simps Let_def)
  have l: "proxmoxRequest pve1_world (parse_guests pve1_world) ''/nodes/pve1/lxc'' ''GET'' NoBody
             [mk_call pve1_world ''/nodes/pve1/qemu'' ''GET'' NoBody] =
           (Inr [stopped_guest 200],
            [mk_call pve1_world ''/nodes/pve1/qemu'' ''GET'' NoBody,
             mk_call pve1_world ''/nodes/pve1/lxc'' ''GET'' NoBody])"
    by (simp add: proxmoxRequest_def pve1_world_def pve1_guests_def test_world_simps Let_def)
  have q': "proxmoxRequest pve1_world (parse_guests pve1_world)
              (''/nodes/'' @ js_str (Some ''pve1'') @ ''/qemu'') ''GET'' NoBody [] =
            (Inr [stopped_guest 100],
             [mk_call pve1_world ''/nodes/pve1/qemu'' ''GET'' NoBody])"
    using q by (simp add: js_str_def)
  have calls: "map (\<lambda>c. (c_method c, c_url c))
                 (snd (getVMs pve1_world (Some ''pve1'') (Some ''qemu'') [])) =
     [(''GET'', ''https://pve:8006/api2/json/nodes/pve1/qemu''),
      (''GET'', ''https://pve:8006/api2/json/nodes/pve1/lxc'')]"
    unfolding getVMs_node_filter_calls [OF t q']
    by (simp add: pve1_world_def test_world_simps)
  have shown: "fst (getVMs pve1_world (Some ''pve1'') (Some ''qemu'') []) =
     Inr [Text (vms_text pve1_world [tag_guest ''qemu'' ''pve1'' (stopped_guest 100)])]"
    using t by (simp add: getVMs_def Let_def io_bind_def q l io_return_def text_payload_def js_str_def)
  show ?thesis
    using calls shown by simp
qed

subsection \<open>The key of list-storage\<close>

text \<open>
  C8. list-storage is to keep one entry for each pair of storage name and node. The
  handler tells the pairs apart by the text \<^verbatim>\<open>name-node\<close>, which two different pairs can
  share: storage \<^verbatim>\<open>local-lvm\<close> of node \<^verbatim>\<open>pve\<close> and storage \<^verbatim>\<open>local\<close> of node \<^verbatim>\<open>lvm-pve\<close>
  have the same key, and the second entry is dropped from the output.
\<close>

theorem storage_key_collision:
  "fst (storages_of_nodes hyphen_world [named_node ''pve'', named_node ''lvm-pve''] [] []) =
     Inr [at_node ''pve'' (named_storage ''local-lvm''), at_node ''lvm-pve'' (named_storage ''local'')] \<and>
   (''local-lvm'', ''pve'') \<noteq> (''local'', ''lvm-pve'') \<and>
   storage_key (at_node ''pve'' (named_storage ''local-lvm'')) =
     storage_key (at_node ''lvm-pve'' (named_storage ''local'')) \<and>
   shown_storages hyphen_world
     [at_node ''pve'' (named_storage ''local-lvm''), at_node ''lvm-pve'' (named_storage ''local'')] =
     [at_node ''pve'' (named_storage ''local-lvm'')] \<and>
   fst (getStorage hyphen_world None []) =
     Inr [Text (glyph_disk @ '' **Storage Pools**\<newline>\<newline>'' @
                storage_block hyphen_world (at_node ''pve'' (named_storage ''local-lvm'')))]"
proof -
  have g: "storages_of_nodes hyphen_world [named_node ''pve'', named_node ''lvm-pve''] [] made =
     (Inr [at_node ''pve'' (named_storage ''local-lvm''), at_node ''lvm-pve'' (named_storage ''local'')],
      made @ [mk_call hyphen_world ''/nodes/pve/storage'' ''GET'' NoBody,
              mk_call hyphen_world ''/nodes/lvm-pve/storage'' ''GET'' NoBody])" for made
    by (simp add: proxmoxRequest_def hyphen_world_def hyphen_storages_def named_node_def
        test_world_simps Let_def)
  have k: "storage_key (at_node ''pve'' (named_storage ''local-lvm'')) =
     storage_key (at_node ''lvm-pve'' (named_storage ''local''))"
    by (simp add: storage_key_def at_node_def named_storage_def)
  have s: "shown_storages hyphen_world
     [at_node ''pve'' (named_storage ''local-lvm''), at_node ''lvm-pve'' (named_storage ''local'')] =
     [at_node ''pve'' (named_storage ''local-lvm'')]"
    by (simp add: shown_storages_def sort_cmp_def k)
  have n: "proxmoxRequest hyphen_world (parse_nodes hyphen_world) ''/nodes'' ''GET'' NoBody [] =
     (Inr [named_node ''pve'', named_node ''lvm-pve''], [mk_call hyphen_world ''/nodes'' ''GET'' NoBody])"
    by (simp add: proxmoxRequest_def hyphen_world_def test_world_simps Let_def)
  have t: "fst (getStorage hyphen_world None []) =
     Inr [Text (glyph_disk @ '' **Storage Pools**\<newline>\<newline>'' @
                storage_block hyphen_world (at_node ''pve'' (named_storage ''local-lvm'')))]"
    by (simp add: getStorage_def truthy_str_def io_bind_def io_return_def n g storages_text_def s
        text_payload_def del: storages_of_nodes.simps)
  show ?thesis
    using g [of "[]"] k s t by simp
qed

subsection \<open>Required parameters\<close>

lemma snd_proxmoxRequest:
  "snd (proxmoxRequest w parse endpoint method body made) = made @ [mk_call w endpoint method body]"
  by (simp add: proxmoxRequest_def Let_def split: fetch_outcome.splits sum.splits)

lemma snd_bind_return:
  "snd (io_bind m (\<lambda>x. io_return (f x)) made) = snd (m made)"
  by (simp add: io_bind_def io_return_def split: prod.splits sum.splits)

lemma snd_catch_return:
  "snd (io_catch m (\<lambda>x. io_return (f x)) made) = snd (m made)"
  by (simp add: io_catch_def io_return_def split: prod.splits sum.splits)

text \<open>
  C2 as stated fails: guest-status requires \<^verbatim>\<open>vmid\<close>, and a request without it is not
  refused; the handler runs and calls the backend with \<^verbatim>\<open>undefined\<close> in the path.
\<close>

theorem missing_vmid_reaches_backend:
  "d_name (catalog ! 3) = ''proxmox_get_vm_status'' \<and>
   ''vmid'' \<in> set (d_required (catalog ! 3)) \<and>
   CallTool pve1_world ''proxmox_get_vm_status''
     (Some \<lparr>arg_node = Some ''pve1'', arg_vmid = None, arg_command = None, arg_type = None\<rparr>) [] =
     (Inr [Text (vm_status_text pve1_world (Some ''pve1'') None ''qemu'' no_guest)],
      [\<lparr>c_url = ''https://pve:8006/api2/json/nodes/pve1/qemu/undefined/status/current'',
        c_method = ''GET'', c_authorization = ''PVEAPIToken=root@pam!mcpserver=secret'',
        c_body = NoBody\<rparr>])"
  by (simp add: catalog_def CallTool_def switch_tool_def with_args_def getVMStatus_def io_catch_def
      io_bind_def io_return_def text_payload_def proxmoxRequest_def pve1_world_def test_world_simps
      Let_def)

text \<open>
  C2, amended. The dispatcher does not check the required parameters of the descriptor.
  With an arguments object, a handler gets each parameter as it was given, an omitted
  one as \<^verbatim>\<open>undefined\<close>: guest-status makes its one backend call, and so do node-status
  and guest-exec when the elevated flag is true. Only without an arguments object do the
  operations that read arguments return an error payload before any backend call.
\<close>

theorem dispatcher_passes_arguments_unchecked:
  "snd (CallTool w ''proxmox_get_vm_status'' (Some a) made) =
     made @ [mk_call w (''/nodes/'' @ js_str (arg_node a) @ ''/'' @
                        (case arg_type a of None \<Rightarrow> ''qemu'' | Some t \<Rightarrow> t) @ ''/'' @
                        js_str (arg_vmid a) @ ''/status/current'') ''GET'' NoBody] \<and>
   (allowElevated w \<longrightarrow>
      snd (CallTool w ''proxmox_get_node_status'' (Some a) made) =
        made @ [mk_call w (''/nodes/'' @ js_str (arg_node a) @ ''/status'') ''GET'' NoBody]) \<and>
   (allowElevated w \<longrightarrow>
      snd (CallTool w ''proxmox_execute_vm_command'' (Some a) made) =
        made @ [mk_call w
                  (if (case arg_type a of None \<Rightarrow> ''qemu'' | Some t \<Rightarrow> t) = ''qemu''
                   then ''/nodes/'' @ js_str (arg_node a) @ ''/qemu/'' @ js_str (arg_vmid a) @ ''/agent/exec''
                   else ''/nodes/'' @ js_str (arg_node a) @ ''/lxc/'' @ js_str (arg_vmid a) @ ''/exec'')
                  ''POST'' (CommandBody (arg_command a))]) \<and>
   CallTool w ''proxmox_get_node_status'' None made = (Inr [Text (''Error: '' @ no_args_message)], made) \<and>
   CallTool w ''proxmox_get_vms'' None made = (Inr [Text (''Error: '' @ no_args_message)], made) \<and>
   CallTool w ''proxmox_get_vm_status'' None made = (Inr [Text (''Error: '' @ no_args_message)], made) \<and>
   CallTool w ''proxmox_execute_vm_command'' None made =
     (Inr [Text (''Error: '' @ no_args_message)], made) \<and>
   CallTool w ''proxmox_get_storage'' None made = (Inr [Text (''Error: '' @ no_args_message)], made)"
proof -
  have 1: "snd (CallTool w ''proxmox_get_vm_status'' (Some a) made) =
     made @ [mk_call w (''/nodes/'' @ js_str (arg_node a) @ ''/'' @
                        (case arg_type a of None \<Rightarrow> ''qemu'' | Some t \<Rightarrow> t) @ ''/'' @
                        js_str (arg_vmid a) @ ''/status/current'') ''GET'' NoBody]"
    by (simp add: CallTool_def switch_tool_def with_args_def getVMStatus_def Let_def
        snd_catch_return snd_bind_return snd_proxmoxRequest)
  have 2: "snd (CallTool w ''proxmox_get_node_status'' (Some a) made) =
        made @ [mk_call w (''/nodes/'' @ js_str (arg_node a) @ ''/status'') ''GET'' NoBody]"
    if "allowElevated w"
    using that
    by (simp add: CallTool_def switch_tool_def with_args_def getNodeStatus_def
        snd_catch_return snd_bind_return snd_proxmoxRequest)
  have 3: "snd (CallTool w ''proxmox_execute_vm_command'' (Some a) made) =
        made @ [mk_call w
                  (if (case arg_type a of None \<Rightarrow> ''qemu'' | Some t \<Rightarrow> t) = ''qemu''
                   then ''/nodes/'' @ js_str (arg_node a) @ ''/qemu/'' @ js_str (arg_vmid a) @ ''/agent/exec''
                   else ''/nodes/'' @ js_str (arg_node a) @ ''/lxc/'' @ js_str (arg_vmid a) @ ''/exec'')
                  ''POST'' (CommandBody (arg_command a))]"
    if "allowElevated w"
    using that
    by (simp add: CallTool_def switch_tool_def with_args_def executeVMCommand_def Let_def
        snd_catch_return snd_bind_return snd_proxmoxRequest)
  have 4: "CallTool w name None made = (Inr [Text (''Error: '' @ no_args_message)], made)"
    if "name \<in> {''proxmox_get_node_status'', ''proxmox_get_vms'', ''proxmox_get_vm_status'',
                 ''proxmox_execute_vm_command'', ''proxmox_get_storage''}" for name
    using that
    by (auto simp add: CallTool_def switch_tool_def with_args_def io_catch_def io_throw_def
        io_return_def text_payload_def)
  show ?thesis
    using 1 2 3 4 by simp
qed

theorem dispatcher_passes_arguments_unchecked_witness:
  "allowElevated (empty_world True) \<and>
   map c_url (snd (CallTool (empty_world True) ''proxmox_get_node_status''
      (Some \<lparr>arg_node = None, arg_vmid = None, arg_command = None, arg_type = None\<rparr>) [])) =
     [''https://pve:8006/api2/json/nodes/undefined/status''] \<and>
   map c_url (snd (CallTool (empty_world True) ''proxmox_execute_vm_command''
      (Some \<lparr>arg_node = Some ''pve1'', arg_vmid = Some ''100'', arg_command = None, arg_type = None\<rparr>) [])) =
     [''https://pve:8006/api2/json/nodes/pve1/qemu/100/agent/exec'']"
proof -
  have h: "allowElevated (empty_world True)"
    by (simp add: empty_world_def test_world_def)
  show ?thesis
    using h
      dispatcher_passes_arguments_unchecked [of "empty_world True"
        "\<lparr>arg_node = None, arg_vmid = None, arg_command = None, arg_type = None\<rparr>" "[]"]
      dispatcher_passes_arguments_unchecked [of "empty_world True"
        "\<lparr>arg_node = Some ''pve1'', arg_vmid = Some ''100'', arg_command = None, arg_type = None\<rparr>" "[]"]
    by (simp add: empty_world_def test_world_simps)
qed

subsection \<open>Byte counts\<close>

lemma digit_cases:
  assumes "d < 10"
  shows "d = 0 \<or> d = 1 \<or> d = 2 \<or> d = 3 \<or> d = 4 \<or> d = 5 \<or> d = 6 \<or> d = 7 \<or> d = 8 \<or> d = (9::nat)"
  using assms by presburger

lemma digit_not_point: "d < 10 \<Longrightarrow> digit d \<noteq> CHR ''.''"
  using digit_cases [of d] by (auto simp add: digit_def)

lemma digit_zero_iff: "d < 10 \<Longrightarrow> digit d = CHR ''0'' \<longleftrightarrow> d = 0"
  using digit_cases [of d] by (auto simp add: digit_def)

lemma digit_value_digit: "d < 10 \<Longrightarrow> digit_value (digit d) = d"
  using digit_cases [of d] by (auto simp add: digit_def digit_value_def)

lemma show_nat_small: "n < 10 \<Longrightarrow> show_nat n = [digit n]"
  by (simp add: show_nat.simps)

lemma show_nat_step: "10 \<le> n \<Longrightarrow> show_nat n = show_nat (n div 10) @ [digit (n mod 10)]"
  by (subst show_nat.simps) simp

lemma show_nat_not_Nil: "show_nat n \<noteq> []"
  by (subst show_nat.simps) simp

lemma length_show_nat: "Suc 0 \<le> length (show_nat n)"
  using show_nat_not_Nil [of n] by (cases "show_nat n") simp_all

lemma point_notin_show_nat: "CHR ''.'' \<notin> set (show_nat n)"
proof (induction n rule: show_nat.induct)
  case (1 n)
  show ?case
  proof (cases "n < 10")
    case True
    then show ?thesis
      using digit_not_point [of n] by (simp add: show_nat_small)
  next
    case False
    then show ?thesis
      using 1 digit_not_point [of "n mod 10"] by (simp add: show_nat_step)
  qed
qed

lemma digits_value_append:
  "digits_value (s @ [c]) = 10 * digits_value s + digit_value c"
  by (simp add: digits_value_def)

lemma digits_value_show_nat: "digits_value (show_nat n) = n"
proof (induction n rule: show_nat.induct)
  case (1 n)
  show ?case
  proof (cases "n < 10")
    case True
    then show ?thesis
      by (simp add: show_nat_small digits_value_def digit_value_digit)
  next
    case False
    then show ?thesis
      using 1 by (simp add: show_nat_step digits_value_append digit_value_digit)
  qed
qed

lemma show_nat_two: "100 \<le> n \<Longrightarrow>
    show_nat n = show_nat (n div 100) @ [digit (n div 10 mod 10), digit (n mod 10)]"
proof -
  assume h: "100 \<le> n"
  then have a: "show_nat n = show_nat (n div 10) @ [digit (n mod 10)]"
    by (simp add: show_nat_step)
  from h have "10 \<le> n div 10"
    by linarith
  then have b: "show_nat (n div 10) = show_nat (n div 10 div 10) @ [digit (n div 10 mod 10)]"
    by (rule show_nat_step)
  have c: "n div 10 div 10 = n div 100"
    by (simp add: div_mult2_eq)
  show ?thesis
    unfolding a b c by simp
qed

lemma fixed_digits_2:
  "fixed_digits 2 n = show_nat (n div 100) @ ''.'' @ [digit (n div 10 mod 10), digit (n mod 10)]"
proof -
  consider "n < 10" | "10 \<le> n" "n < 100" | "100 \<le> n"
    by linarith
  then show ?thesis
  proof cases
    case 1
    then show ?thesis
      by (simp add: fixed_digits_def show_nat_small Let_def numeral_2_eq_2 numeral_3_eq_3 digit_def)
  next
    case 2
    then have "show_nat n = [digit (n div 10), digit (n mod 10)]"
      by (simp add: show_nat_step show_nat_small)
    with 2 show ?thesis
      by (simp add: fixed_digits_def show_nat_small Let_def digit_def)
  next
    case 3
    then show ?thesis
      using length_show_nat [of "n div 100"]
      by (simp add: fixed_digits_def show_nat_two Let_def)
  qed
qed




lemma toFixed_2_nonneg: "0 \<le> x \<Longrightarrow> toFixed 2 x = fixed_digits 2 (nat \<lfloor>x * 100 + 1 / 2\<rfloor>)"
  by (simp add: toFixed_def Let_def)

lemma takeWhile_no_point:
  "CHR ''.'' \<notin> set s \<Longrightarrow> takeWhile (\<lambda>c. c \<noteq> CHR ''.'') (s @ CHR ''.'' # t) = s"
  by (induction s) auto

lemma dropWhile_no_point:
  "CHR ''.'' \<notin> set s \<Longrightarrow> dropWhile (\<lambda>c. c \<noteq> CHR ''.'') (s @ CHR ''.'' # t) = CHR ''.'' # t"
  by (induction s) auto

lemma takeWhile_all: "CHR ''.'' \<notin> set s \<Longrightarrow> takeWhile (\<lambda>c. c \<noteq> CHR ''.'') s = s"
  by (induction s) auto

lemma dropWhile_all: "CHR ''.'' \<notin> set s \<Longrightarrow> dropWhile (\<lambda>c. c \<noteq> CHR ''.'') s = []"
  by (induction s) auto


lemma parseFloat_text_fixed_2: "parseFloat_text (fixed_digits 2 n) = shortest_decimal n"
proof -
  let ?w = "show_nat (n div 100)"
  let ?d1 = "digit (n div 10 mod 10)"
  let ?d0 = "digit (n mod 10)"
  have p1: "?d1 \<noteq> CHR ''.''" and p0: "?d0 \<noteq> CHR ''.''"
    by (simp_all add: digit_not_point)
  have z0: "?d0 = CHR ''0'' \<longleftrightarrow> n mod 10 = 0"
    by (simp add: digit_zero_iff)
  have z1: "?d1 = CHR ''0'' \<longleftrightarrow> n div 10 mod 10 = 0"
    by (simp add: digit_zero_iff)
  have m: "n mod 100 = 0 \<longleftrightarrow> n mod 10 = 0 \<and> n div 10 mod 10 = 0"
    by presburger
  have w: "?w \<noteq> []"
    by (rule show_nat_not_Nil)
  show ?thesis
    using p1 p0 z0 z1 m w
    by (auto simp add: fixed_digits_2 parseFloat_text_def shortest_decimal_def Let_def)
qed

lemma floor_log1024_bounds:
  "0 < n \<Longrightarrow> 1024 ^ floor_log1024 n \<le> n \<and> n < 1024 ^ Suc (floor_log1024 n)"
proof (induction n rule: floor_log1024.induct)
  case (1 n)
  show ?case
  proof (cases "n < 1024")
    case True
    with 1(2) show ?thesis
      by (simp add: floor_log1024.simps)
  next
    case False
    then have pos: "0 < n div 1024"
      by (simp add: div_greater_zero_iff)
    have ih: "1024 ^ floor_log1024 (n div 1024) \<le> n div 1024 \<and>
              n div 1024 < 1024 ^ Suc (floor_log1024 (n div 1024))"
      using 1(1) [OF False pos] .
    have fl: "floor_log1024 n = Suc (floor_log1024 (n div 1024))"
      using False by (subst floor_log1024.simps) simp
    have a: "1024 * (n div 1024) \<le> n"
      by simp
    have b: "n < 1024 * Suc (n div 1024)"
      using dividend_less_times_div [of 1024 n] by simp
    from ih have c: "1024 * 1024 ^ floor_log1024 (n div 1024) \<le> 1024 * (n div 1024)"
      by simp
    from ih have d: "1024 * Suc (n div 1024) \<le> 1024 * 1024 ^ Suc (floor_log1024 (n div 1024))"
      by (simp only: mult_le_cancel1 Suc_le_eq) simp
    show ?thesis
      unfolding fl using a b c d by simp
  qed
qed


lemma decimal_value_whole:
  "CHR ''.'' \<notin> set w \<Longrightarrow> decimal_value w = of_nat (digits_value w)"
  by (simp add: decimal_value_def takeWhile_all dropWhile_all digits_value_def)

lemma decimal_value_one:
  "CHR ''.'' \<notin> set w \<Longrightarrow>
   decimal_value (w @ [CHR ''.'', x]) = of_nat (digits_value w) + of_nat (digit_value x) / 10"
  by (simp add: decimal_value_def takeWhile_no_point dropWhile_no_point digits_value_def)

lemma decimal_value_two:
  "CHR ''.'' \<notin> set w \<Longrightarrow>
   decimal_value (w @ [CHR ''.'', x, y]) =
     of_nat (digits_value w) + of_nat (10 * digit_value x + digit_value y) / 100"
  by (simp add: decimal_value_def takeWhile_no_point dropWhile_no_point digits_value_def)

lemma hundreds_split: "(n :: nat) = 100 * (n div 100) + (10 * (n div 10 mod 10) + n mod 10)"
proof -
  have a: "n = 10 * (n div 10) + n mod 10"
    by simp
  have b: "n div 10 = 10 * (n div 10 div 10) + n div 10 mod 10"
    by simp
  have c: "n div 10 div 10 = n div 100"
    by (simp add: div_mult2_eq)
  show ?thesis
    using a b c by linarith
qed

lemma mod_100_zero: "(n :: nat) mod 100 = 0 \<longleftrightarrow> n mod 10 = 0 \<and> n div 10 mod 10 = 0"
proof -
  have "n mod 100 = 10 * (n div 10 mod 10) + n mod 10"
    using mod_mult2_eq [of n 10 10] by simp
  then show ?thesis
    by auto
qed

lemma decimal_value_shortest: "decimal_value (shortest_decimal n) = of_nat n / 100"
proof -
  define q a c where "q = n div 100" and "a = n div 10 mod 10" and "c = n mod 10"
  have np: "CHR ''.'' \<notin> set (show_nat q)"
    by (rule point_notin_show_nat)
  have da: "digit_value (digit a) = a" and dc: "digit_value (digit c) = c"
    unfolding a_def c_def by (simp_all add: digit_value_digit)
  have n: "n = 100 * q + (10 * a + c)"
    unfolding q_def a_def c_def by (rule hundreds_split)
  have nr: "(of_nat n :: rat) = 100 * of_nat q + (10 * of_nat a + of_nat c)"
    by (subst n) simp
  have m: "n mod 100 = 0 \<longleftrightarrow> c = 0 \<and> a = 0"
    unfolding a_def c_def by (rule mod_100_zero)
  have sd: "shortest_decimal n =
     (if c = 0 \<and> a = 0 then show_nat q
      else if c = 0 then show_nat q @ ''.'' @ [digit a]
      else show_nat q @ ''.'' @ [digit a, digit c])"
    unfolding shortest_decimal_def m unfolding q_def a_def c_def by simp
  show ?thesis
    unfolding sd nr
    by (simp add: decimal_value_whole [OF np] decimal_value_one [OF np] decimal_value_two [OF np]
        digits_value_show_nat da dc)
qed

lemma round_hundredths:
  fixes y :: rat
  assumes "0 \<le> y"
  shows "\<bar>of_nat (nat \<lfloor>y * 100 + 1 / 2\<rfloor>) / 100 - y\<bar> \<le> 1 / 200"
proof -
  define r :: rat where "r = of_int \<lfloor>y * 100 + 1 / 2\<rfloor>"
  have nn: "0 \<le> \<lfloor>y * 100 + 1 / 2\<rfloor>"
    using assms by simp
  have lo: "r \<le> y * 100 + 1 / 2"
    unfolding r_def by (rule of_int_floor_le)
  have hi: "y * 100 + 1 / 2 < r + 1"
    unfolding r_def using floor_correct [of "y * 100 + 1 / 2"] by simp
  have eq: "(of_nat (nat \<lfloor>y * 100 + 1 / 2\<rfloor>) :: rat) = r"
    unfolding r_def using nn by simp
  have "r / 100 - y \<le> 1 / 200" "- (r / 100 - y) \<le> 1 / 200"
    using lo hi by linarith+
  then show ?thesis
    unfolding eq by (rule abs_leI)
qed

lemma floor_numeral_div: "\<lfloor>(numeral a :: rat) / numeral b\<rfloor> = numeral a div numeral b"
  using floor_divide_of_int_eq [of "numeral a" "numeral b", where ?'a = rat] by simp

lemma formatBytes_shortest:
  assumes "b \<noteq> 0" and "lg 1024 \<noteq> 0" and "\<lfloor>fl (lg b / lg 1024)\<rfloor> = int i"
    and "i < length sizes"
  shows "formatBytes lg b = shortest_decimal (hundredths b i) @ '' '' @ sizes ! i"
proof -
  define y :: rat where "y = of_nat b / of_nat (1024 ^ i)"
  have pos: "0 \<le> y"
    unfolding y_def by simp
  have n: "hundredths b i = nat \<lfloor>y * 100 + 1 / 2\<rfloor>"
    unfolding hundredths_def y_def by (rule refl)
  have fb: "formatBytes lg b = parseFloat_text (toFixed 2 y) @ '' '' @ sizes ! i"
    using assms by (simp add: formatBytes_def Let_def y_def)
  show ?thesis
    unfolding fb toFixed_2_nonneg [OF pos] parseFloat_text_fixed_2 n by (rule refl)
qed

lemma formatBytes_beyond_units:
  assumes "b \<noteq> 0" and "lg 1024 \<noteq> 0" and "\<lfloor>fl (lg b / lg 1024)\<rfloor> = int i"
    and "length sizes \<le> i"
  shows "formatBytes lg b = shortest_decimal (hundredths b i) @ '' undefined''"
proof -
  define y :: rat where "y = of_nat b / of_nat (1024 ^ i)"
  have pos: "0 \<le> y"
    unfolding y_def by simp
  have n: "hundredths b i = nat \<lfloor>y * 100 + 1 / 2\<rfloor>"
    unfolding hundredths_def y_def by (rule refl)
  have fb: "formatBytes lg b = parseFloat_text (toFixed 2 y) @ '' undefined''"
    using assms by (simp add: formatBytes_def Let_def y_def)
  show ?thesis
    unfolding fb toFixed_2_nonneg [OF pos] parseFloat_text_fixed_2 n by (rule refl)
qed

text \<open>
  Wherever the index that the code computes from the host's logarithms is the exact
  \<open>i = \<lfloor>log\<^sub>1\<^sub>0\<^sub>2\<^sub>4 b\<rfloor>\<close> and \<open>i \<le> 4\<close>, \<open>formatBytes\<close> prints \<open>b / 1024 ^ i\<close> rounded to two decimals
  as the shortest decimal of that value, one space, and the unit of index \<open>i\<close>; the decimal
  reads back as the rounded value, which is within \<open>0.005\<close> of \<open>b / 1024 ^ i\<close>; and zero
  prints as \<^verbatim>\<open>0 B\<close>.
\<close>

lemma formatBytes_exact_index:
  assumes "b \<noteq> 0" and "lg 1024 \<noteq> 0"
    and "\<lfloor>fl (lg b / lg 1024)\<rfloor> = int (floor_log1024 b)" and "floor_log1024 b \<le> 4"
  shows "(let i = floor_log1024 b; n = hundredths b i
          in 1024 ^ i \<le> b \<and> b < 1024 ^ (i + 1) \<and>
             formatBytes lg b = shortest_decimal n @ '' '' @ sizes ! i \<and>
             decimal_value (shortest_decimal n) = of_nat n / 100 \<and>
             \<bar>of_nat n / 100 - of_nat b / 1024 ^ i\<bar> \<le> (1 / 200 :: rat)) \<and>
         formatBytes lg 0 = ''0 B''"
proof -
  define i where "i = floor_log1024 b"
  define n where "n = hundredths b i"
  define y :: rat where "y = of_nat b / of_nat (1024 ^ i)"
  have pos: "0 \<le> y"
    unfolding y_def by simp
  have bounds: "1024 ^ i \<le> b \<and> b < 1024 ^ (i + 1)"
    unfolding i_def using floor_log1024_bounds [of b] assms(1) by simp
  have len: "i < length sizes"
    using assms(4) unfolding i_def by (simp add: sizes_def)
  have n: "n = nat \<lfloor>y * 100 + 1 / 2\<rfloor>"
    unfolding n_def hundredths_def y_def by (rule refl)
  have shown: "formatBytes lg b = shortest_decimal n @ '' '' @ sizes ! i"
    unfolding n_def using assms(1) assms(2) assms(3) [folded i_def] len
    by (rule formatBytes_shortest)
  have reads: "decimal_value (shortest_decimal n) = of_nat n / 100"
    by (rule decimal_value_shortest)
  have near: "\<bar>of_nat n / 100 - of_nat b / 1024 ^ i\<bar> \<le> (1 / 200 :: rat)"
    unfolding n using round_hundredths [OF pos] by (simp add: y_def)
  have zero: "formatBytes lg 0 = ''0 B''"
    by (simp add: formatBytes_def)
  show ?thesis
    using bounds shown reads near zero by (simp add: Let_def i_def n_def)
qed

lemma binary64_log_1024: "binary64_log 1024 = 7804143460206699 / 1125899906842624"
  by (simp add: binary64_log_def)

lemma binary64_log_1024_nonzero: "binary64_log 1024 \<noteq> 0"
  by (simp add: binary64_log_1024)

lemma binary64_index_1536: "\<lfloor>fl (binary64_log 1536 / binary64_log 1024)\<rfloor> = int 1"
proof -
  have l: "binary64_log 1536 = 516291036728351 / 70368744177664"
    by (simp add: binary64_log_def)
  have "\<lfloor>fl ((516291036728351 / 70368744177664) /
            (7804143460206699 / 1125899906842624))\<rfloor> = 1"
    by code_simp
  then show ?thesis
    unfolding l binary64_log_1024 by simp
qed

lemma formatBytes_1536: "formatBytes binary64_log 1536 = ''1.5 KB''"
proof -
  have h: "hundredths 1536 1 = 150"
    by (simp add: hundredths_def floor_numeral_div)
  have s: "shortest_decimal 150 = ''1.5''"
    by (simp add: shortest_decimal_def show_nat.simps digit_def)
  have "formatBytes binary64_log 1536 = shortest_decimal (hundredths 1536 1) @ '' '' @ sizes ! 1"
    by (rule formatBytes_shortest [OF _ binary64_log_1024_nonzero binary64_index_1536])
      (simp_all add: sizes_def)
  then show ?thesis
    by (simp add: h [unfolded One_nat_def] s sizes_def)
qed

lemma binary64_index_top:
  "fl (binary64_log 1125899906842623 / binary64_log 1024) = 5"
proof -
  have l: "binary64_log 1125899906842623 = 4877589662629187 / 140737488355328"
    by (simp add: binary64_log_def)
  have "fl ((4877589662629187 / 140737488355328) /
            (7804143460206699 / 1125899906842624)) = 5"
    by code_simp
  then show ?thesis
    unfolding l binary64_log_1024 by simp
qed

text \<open>
  C6. The byte count \<open>b = 2\<^sup>5\<^sup>0 - 1 = 1125899906842623\<close> is not zero and its unit index
  \<open>\<lfloor>log\<^sub>1\<^sub>0\<^sub>2\<^sub>4 b\<rfloor>\<close> is 4, so that the text claimed for it is \<open>b / 1024 ^ 4\<close> rounded to two
  decimals, a space and the unit of index 4: \<^verbatim>\<open>1024 TB\<close>. In the code the quotient of the
  host's logarithms \<^verbatim>\<open>Math.log(b) = 34.657359027997266\<close> and
  \<^verbatim>\<open>Math.log(1024) = 6.931471805599453\<close> rounds to exactly 5, the index is 5, the scaled
  value is \<open>b / 1024 ^ 5\<close>, and \<open>formatBytes\<close> prints \<^verbatim>\<open>1 undefined\<close>. (At 1536, where the
  computed index is the exact one, it prints \<^verbatim>\<open>1.5 KB\<close>, and zero prints as \<^verbatim>\<open>0 B\<close>.)
\<close>

theorem formatBytes_index_rounds_up:
  "floor_log1024 1125899906842623 = 4 \<and>
   1024 ^ 4 \<le> (1125899906842623 :: nat) \<and> (1125899906842623 :: nat) < 1024 ^ 5 \<and>
   shortest_decimal (hundredths 1125899906842623 4) @ '' '' @ sizes ! 4 = ''1024 TB'' \<and>
   \<lfloor>fl (binary64_log 1125899906842623 / binary64_log 1024)\<rfloor> = 5 \<and>
   formatBytes binary64_log 1125899906842623 = ''1 undefined'' \<and>
   formatBytes binary64_log 1536 = ''1.5 KB'' \<and>
   formatBytes binary64_log 0 = ''0 B''"
proof -
  have i: "floor_log1024 1125899906842623 = 4"
    by (simp add: floor_log1024.simps)
  have r: "1024 ^ 4 \<le> (1125899906842623 :: nat)" "(1125899906842623 :: nat) < 1024 ^ 5"
    by simp_all
  have h4: "hundredths 1125899906842623 4 = 102400"
    by (simp add: hundredths_def floor_numeral_div)
  have s4: "shortest_decimal 102400 = ''1024''"
    by (simp add: shortest_decimal_def show_nat.simps digit_def)
  have claimed: "shortest_decimal (hundredths 1125899906842623 4) @ '' '' @ sizes ! 4 = ''1024 TB''"
    by (simp add: h4 s4 sizes_def)
  have q: "\<lfloor>fl (binary64_log 1125899906842623 / binary64_log 1024)\<rfloor> = int 5"
    by (simp add: binary64_index_top)
  have h5: "hundredths 1125899906842623 5 = 100"
    by (simp add: hundredths_def floor_numeral_div)
  have s5: "shortest_decimal 100 = ''1''"
    by (simp add: shortest_decimal_def show_nat.simps digit_def)
  have "formatBytes binary64_log 1125899906842623 =
          shortest_decimal (hundredths 1125899906842623 5) @ '' undefined''"
    by (rule formatBytes_beyond_units [OF _ binary64_log_1024_nonzero q]) (simp_all add: sizes_def)
  then have printed: "formatBytes binary64_log 1125899906842623 = ''1 undefined''"
    by (simp add: h5 s5)
  have zero: "formatBytes binary64_log 0 = ''0 B''"
    by (simp add: formatBytes_def)
  show ?thesis
    using i r claimed q printed formatBytes_1536 zero by simp
qed

subsection \<open>Zero and absent values\<close>

lemma if_nat_zero [simp]: "if_nat (Some 0) f d = d" "if_nat None f d = d"
  by (simp_all add: if_nat_def)

lemma if_num_zero [simp]: "if_num (Some 0) f d = d" "if_num None f d = d"
  by (simp_all add: if_num_def)

lemma if_nat2_zero [simp]:
  "if_nat2 (Some 0) b f d = d" "if_nat2 None b f d = d"
  "if_nat2 a (Some 0) f d = d" "if_nat2 a None f d = d"
  by (simp_all add: if_nat2_def split: option.splits)

lemma or0_zero [simp]: "nat_or0 (Some 0) = nat_or0 None" "num_or0 (Some 0) = num_or0 None"
  by (simp_all add: nat_or0_def num_or0_def)

lemma binary64_index_1024: "\<lfloor>fl (binary64_log 1024 / binary64_log 1024)\<rfloor> = int 1"
proof -
  have "fl 1 = 1"
    by code_simp
  then show ?thesis
    using binary64_log_1024_nonzero by simp
qed

lemma formatBytes_1024: "formatBytes binary64_log 1024 = ''1 KB''"
proof -
  have h: "hundredths 1024 1 = 100"
    by (simp add: hundredths_def floor_numeral_div)
  have s: "shortest_decimal 100 = ''1''"
    by (simp add: shortest_decimal_def show_nat.simps digit_def)
  have "formatBytes binary64_log 1024 = shortest_decimal (hundredths 1024 1) @ '' '' @ sizes ! 1"
    by (rule formatBytes_shortest [of 1024 binary64_log 1, OF _ binary64_log_1024_nonzero
          binary64_index_1024])
      (simp_all add: sizes_def)
  then show ?thesis
    by (simp add: h [unfolded One_nat_def] s sizes_def)
qed

lemma idle_usage:
  "usage_text idle_world (Some \<lparr>u_used = 0, u_total = 1024\<rparr>) = ''0 B / 1 KB (0.0%)''"
proof -
  have u: "Math_log idle_world = binary64_log"
    by (simp add: idle_world_def test_world_def)
  have z: "toFixed (Suc 0) 0 = ''0.0''"
    by code_simp
  show ?thesis
    by (simp add: usage_text_def u formatBytes_1024 percent1_unguarded_def percent1_def fl_def z)
      (simp add: formatBytes_def)
qed

text \<open>
  C10, as it fails. Two numeric metric fields are printed when they are 0. In list-nodes
  the first load average is formatted before it is tested, so that the test is on the
  text \<^verbatim>\<open>0.00\<close>, which is not empty: the idle node prints \<^verbatim>\<open>Load: 0.00\<close>, not \<^verbatim>\<open>N/A\<close>. In
  node-status the test is on the objects \<^verbatim>\<open>memory\<close> and \<^verbatim>\<open>rootfs\<close>, not on their numbers:
  0 bytes in use print as \<^verbatim>\<open>0 B / 1 KB (0.0%)\<close>; and the load averages, joined to a text,
  print as \<^verbatim>\<open>0, 0, 0\<close>.
\<close>

theorem zero_load_and_usage_are_printed:
  "n_loadavg idle_node = Some [0, 0, 0] \<and>
   ns_memory idle_status = Some \<lparr>u_used = 0, u_total = 1024\<rparr> \<and>
   fst (CallTool idle_world ''proxmox_get_nodes'' None []) =
     Inr [Text ([CHR 0xF0, CHR 0x9F, CHR 0x96, CHR 0xA5, CHR 0xEF, CHR 0xB8, CHR 0x8F] @ ''  **Proxmox Cluster Nodes**\<newline>\<newline>'' @
                [CHR 0xF0, CHR 0x9F, CHR 0x9F, CHR 0xA2] @ '' **pve1**\<newline>'' @
                ''   '' @ [CHR 0xE2, CHR 0x80, CHR 0xA2] @ '' Status: online\<newline>'' @
                ''   '' @ [CHR 0xE2, CHR 0x80, CHR 0xA2] @ '' Uptime: N/A\<newline>'' @
                ''   '' @ [CHR 0xE2, CHR 0x80, CHR 0xA2] @ '' CPU: N/A\<newline>'' @
                ''   '' @ [CHR 0xE2, CHR 0x80, CHR 0xA2] @ '' Memory: N/A\<newline>'' @
                ''   '' @ [CHR 0xE2, CHR 0x80, CHR 0xA2] @ '' Load: 0.00\<newline>\<newline>'')] \<and>
   fst (CallTool idle_world ''proxmox_get_node_status''
          (Some \<lparr>arg_node = Some ''pve1'', arg_vmid = None, arg_command = None, arg_type = None\<rparr>) []) =
     Inr [Text ([CHR 0xF0, CHR 0x9F, CHR 0x96, CHR 0xA5, CHR 0xEF, CHR 0xB8, CHR 0x8F] @ ''  **Node pve1 Status**\<newline>\<newline>'' @
                [CHR 0xE2, CHR 0x80, CHR 0xA2] @ '' **Status**: '' @ [CHR 0xF0, CHR 0x9F, CHR 0x9F, CHR 0xA2] @ '' Online\<newline>'' @
                [CHR 0xE2, CHR 0x80, CHR 0xA2] @ '' **Uptime**: 1m\<newline>'' @
                [CHR 0xE2, CHR 0x80, CHR 0xA2] @ '' **Load Average**: 0, 0, 0\<newline>'' @
                [CHR 0xE2, CHR 0x80, CHR 0xA2] @ '' **CPU Usage**: N/A\<newline>'' @
                [CHR 0xE2, CHR 0x80, CHR 0xA2] @ '' **Memory**: 0 B / 1 KB (0.0%)\<newline>'' @
                [CHR 0xE2, CHR 0x80, CHR 0xA2] @ '' **Root Disk**: 0 B / 1 KB (0.0%)\<newline>'')]"
proof -
  have z2: "toFixed 2 0 = ''0.00''"
    by code_simp
  have m: "formatUptime 60 = ''1m''"
    by (simp add: formatUptime_def show_nat.simps digit_def)
  have a: "n_loadavg idle_node = Some [0, 0, 0]"
    by (simp add: idle_node_def)
  have b: "ns_memory idle_status = Some \<lparr>u_used = 0, u_total = 1024\<rparr>"
    by (simp add: idle_status_def)
  have c: "fst (CallTool idle_world ''proxmox_get_nodes'' None []) =
     Inr [Text ([CHR 0xF0, CHR 0x9F, CHR 0x96, CHR 0xA5, CHR 0xEF, CHR 0xB8, CHR 0x8F] @ ''  **Proxmox Cluster Nodes**\<newline>\<newline>'' @
                [CHR 0xF0, CHR 0x9F, CHR 0x9F, CHR 0xA2] @ '' **pve1**\<newline>'' @
                ''   '' @ [CHR 0xE2, CHR 0x80, CHR 0xA2] @ '' Status: online\<newline>'' @
                ''   '' @ [CHR 0xE2, CHR 0x80, CHR 0xA2] @ '' Uptime: N/A\<newline>'' @
                ''   '' @ [CHR 0xE2, CHR 0x80, CHR 0xA2] @ '' CPU: N/A\<newline>'' @
                ''   '' @ [CHR 0xE2, CHR 0x80, CHR 0xA2] @ '' Memory: N/A\<newline>'' @
                ''   '' @ [CHR 0xE2, CHR 0x80, CHR 0xA2] @ '' Load: 0.00\<newline>\<newline>'')]"
    by (simp add: CallTool_def switch_tool_def getNodes_def io_catch_def io_bind_def io_return_def
        text_payload_def proxmoxRequest_def idle_world_def test_world_simps Let_def idle_node_def
        named_node_def node_block_def z2 glyph_computer_def glyph_green_def bullet_def)
  have e: "allowElevated idle_world"
    by (simp add: idle_world_def test_world_def)
  have r: "proxmoxRequest idle_world (parse_node_status idle_world) ''/nodes/pve1/status'' ''GET''
             NoBody [] =
           (Inr idle_status, [mk_call idle_world ''/nodes/pve1/status'' ''GET'' NoBody])"
    by (simp add: proxmoxRequest_def idle_world_def test_world_simps Let_def)
  have t: "node_status_text idle_world (Some ''pve1'') idle_status =
             [CHR 0xF0, CHR 0x9F, CHR 0x96, CHR 0xA5, CHR 0xEF, CHR 0xB8, CHR 0x8F] @ ''  **Node pve1 Status**\<newline>\<newline>'' @
                [CHR 0xE2, CHR 0x80, CHR 0xA2] @ '' **Status**: '' @ [CHR 0xF0, CHR 0x9F, CHR 0x9F, CHR 0xA2] @ '' Online\<newline>'' @
                [CHR 0xE2, CHR 0x80, CHR 0xA2] @ '' **Uptime**: 1m\<newline>'' @
                [CHR 0xE2, CHR 0x80, CHR 0xA2] @ '' **Load Average**: 0, 0, 0\<newline>'' @
                [CHR 0xE2, CHR 0x80, CHR 0xA2] @ '' **CPU Usage**: N/A\<newline>'' @
                [CHR 0xE2, CHR 0x80, CHR 0xA2] @ '' **Memory**: 0 B / 1 KB (0.0%)\<newline>'' @
                [CHR 0xE2, CHR 0x80, CHR 0xA2] @ '' **Root Disk**: 0 B / 1 KB (0.0%)\<newline>''"
    unfolding node_status_text_def
    by (simp add: idle_usage idle_status_def m join_comma_def js_str_def if_nat_def
        glyph_computer_def glyph_green_def bullet_def)
  have d: "fst (CallTool idle_world ''proxmox_get_node_status''
          (Some \<lparr>arg_node = Some ''pve1'', arg_vmid = None, arg_command = None, arg_type = None\<rparr>) []) =
     Inr [Text (node_status_text idle_world (Some ''pve1'') idle_status)]"
    using e r
    by (simp add: CallTool_def switch_tool_def with_args_def getNodeStatus_def io_catch_def
        io_bind_def io_return_def text_payload_def js_str_def)
  show ?thesis
    using a b c d unfolding t by simp
qed

text \<open>
  C10, amended. The fields whose presence is decided by the truthiness of the number
  are: \<^verbatim>\<open>uptime\<close>, \<^verbatim>\<open>cpu\<close>, \<^verbatim>\<open>mem\<close> and \<^verbatim>\<open>maxmem\<close> of a node in list-nodes and of a guest in
  list-guests and guest-status, the disk and network counters of guest-status, \<^verbatim>\<open>uptime\<close>
  and \<^verbatim>\<open>cpu\<close> of node-status, \<^verbatim>\<open>used\<close> and \<^verbatim>\<open>total\<close> of a storage entry, and \<^verbatim>\<open>cpu\<close>, \<^verbatim>\<open>maxcpu\<close>,
  \<^verbatim>\<open>mem\<close> and \<^verbatim>\<open>maxmem\<close> in the sums of cluster-status. For each of them the value 0 gives
  what a missing field gives: \<^verbatim>\<open>N/A\<close> for uptime, CPU, memory and the counters (a node
  with uptime 0 in node-status is moreover \<^verbatim>\<open>Offline\<close>), no usage line for a storage
  entry, and 0 in the sums. The first load average of list-nodes and the \<^verbatim>\<open>used\<close> and
  \<^verbatim>\<open>total\<close> of \<^verbatim>\<open>memory\<close> and \<^verbatim>\<open>rootfs\<close> in node-status are not among them: a load of 0 prints
  as \<^verbatim>\<open>0.00\<close>, and 0 bytes in use print as \<^verbatim>\<open>0 B\<close> with the percentage \<^verbatim>\<open>0.0\<close> (\<^verbatim>\<open>NaN\<close> when the
  total is 0 as well). (The bullet is the byte sequence E2 80 A2, the green and the red
  circle F0 9F 9F A2 and F0 9F 94 B4, the computer with its variation selector
  F0 9F 96 A5 EF B8 8F.)
\<close>

theorem zero_reads_as_absent:
  "node_block w (node\<lparr>n_cpu := Some 0\<rparr>) = node_block w (node\<lparr>n_cpu := None\<rparr>) \<and>
   node_block w (node\<lparr>n_uptime := Some 0\<rparr>) = node_block w (node\<lparr>n_uptime := None\<rparr>) \<and>
   node_block w (node\<lparr>n_mem := Some 0\<rparr>) = node_block w (node\<lparr>n_mem := None\<rparr>) \<and>
   node_block w (node\<lparr>n_maxmem := Some 0\<rparr>) = node_block w (node\<lparr>n_maxmem := None\<rparr>) \<and>
   node_block w
     \<lparr>n_node = name, n_status = ''online'', n_uptime = Some 0, n_cpu = Some 0, n_mem = Some 0,
      n_maxmem = maxmem, n_maxcpu = maxcpu, n_loadavg = None\<rparr> =
     [CHR 0xF0, CHR 0x9F, CHR 0x9F, CHR 0xA2] @ '' **'' @ name @ ''**\<newline>'' @
     ''   '' @ [CHR 0xE2, CHR 0x80, CHR 0xA2] @ '' Status: online\<newline>'' @
     ''   '' @ [CHR 0xE2, CHR 0x80, CHR 0xA2] @ '' Uptime: N/A\<newline>'' @
     ''   '' @ [CHR 0xE2, CHR 0x80, CHR 0xA2] @ '' CPU: N/A\<newline>'' @
     ''   '' @ [CHR 0xE2, CHR 0x80, CHR 0xA2] @ '' Memory: N/A\<newline>'' @
     ''   '' @ [CHR 0xE2, CHR 0x80, CHR 0xA2] @ '' Load: N/A\<newline>\<newline>'' \<and>
   node_block w
     \<lparr>n_node = name, n_status = ''online'', n_uptime = Some 0, n_cpu = Some 0, n_mem = Some 0,
      n_maxmem = maxmem, n_maxcpu = maxcpu, n_loadavg = Some (0 # rest)\<rparr> =
     [CHR 0xF0, CHR 0x9F, CHR 0x9F, CHR 0xA2] @ '' **'' @ name @ ''**\<newline>'' @
     ''   '' @ [CHR 0xE2, CHR 0x80, CHR 0xA2] @ '' Status: online\<newline>'' @
     ''   '' @ [CHR 0xE2, CHR 0x80, CHR 0xA2] @ '' Uptime: N/A\<newline>'' @
     ''   '' @ [CHR 0xE2, CHR 0x80, CHR 0xA2] @ '' CPU: N/A\<newline>'' @
     ''   '' @ [CHR 0xE2, CHR 0x80, CHR 0xA2] @ '' Memory: N/A\<newline>'' @
     ''   '' @ [CHR 0xE2, CHR 0x80, CHR 0xA2] @ '' Load: 0.00\<newline>\<newline>'' \<and>
   vm_block w (tag_guest ty n (g\<lparr>g_cpu := Some 0\<rparr>)) =
     vm_block w (tag_guest ty n (g\<lparr>g_cpu := None\<rparr>)) \<and>
   vm_block w (tag_guest ty n (g\<lparr>g_uptime := Some 0\<rparr>)) =
     vm_block w (tag_guest ty n (g\<lparr>g_uptime := None\<rparr>)) \<and>
   vm_block w (tag_guest ty n (g\<lparr>g_mem := Some 0\<rparr>)) =
     vm_block w (tag_guest ty n (g\<lparr>g_mem := None\<rparr>)) \<and>
   vm_block w (tag_guest ty n (g\<lparr>g_maxmem := Some 0\<rparr>)) =
     vm_block w (tag_guest ty n (g\<lparr>g_maxmem := None\<rparr>)) \<and>
   vm_block w (tag_guest ''qemu'' n
       (g\<lparr>g_status := ''running'', g_uptime := Some 0, g_cpu := Some 0, g_mem := Some 0\<rparr>)) =
     [CHR 0xF0, CHR 0x9F, CHR 0x9F, CHR 0xA2] @ '' '' @ [CHR 0xF0, CHR 0x9F, CHR 0x96, CHR 0xA5, CHR 0xEF, CHR 0xB8, CHR 0x8F] @ '' **'' @
       str_or (g_name g) (''VM-'' @ show_nat (g_vmid g)) @
       ''** (ID: '' @ show_nat (g_vmid g) @ '')\<newline>'' @
     ''   '' @ [CHR 0xE2, CHR 0x80, CHR 0xA2] @ '' Node: '' @ n @ ''\<newline>'' @
     ''   '' @ [CHR 0xE2, CHR 0x80, CHR 0xA2] @ '' Status: running\<newline>'' @
     ''   '' @ [CHR 0xE2, CHR 0x80, CHR 0xA2] @ '' Type: QEMU\<newline>'' @
     ''   '' @ [CHR 0xE2, CHR 0x80, CHR 0xA2] @ '' Uptime: N/A\<newline>'' @
     ''   '' @ [CHR 0xE2, CHR 0x80, CHR 0xA2] @ '' CPU: N/A\<newline>'' @
     ''   '' @ [CHR 0xE2, CHR 0x80, CHR 0xA2] @ '' Memory: N/A\<newline>'' @
     ''\<newline>'' \<and>
   vm_status_text w nd vmid ty (g\<lparr>g_cpu := Some 0\<rparr>) =
     vm_status_text w nd vmid ty (g\<lparr>g_cpu := None\<rparr>) \<and>
   vm_status_text w nd vmid ty (g\<lparr>g_uptime := Some 0\<rparr>) =
     vm_status_text w nd vmid ty (g\<lparr>g_uptime := None\<rparr>) \<and>
   vm_status_text w nd vmid ty (g\<lparr>g_mem := Some 0\<rparr>) =
     vm_status_text w nd vmid ty (g\<lparr>g_mem := None\<rparr>) \<and>
   vm_status_text w nd vmid ty (g\<lparr>g_maxmem := Some 0\<rparr>) =
     vm_status_text w nd vmid ty (g\<lparr>g_maxmem := None\<rparr>) \<and>
   vm_status_text w nd vmid ty (g\<lparr>g_diskread := Some 0\<rparr>) =
     vm_status_text w nd vmid ty (g\<lparr>g_diskread := None\<rparr>) \<and>
   vm_status_text w nd vmid ty (g\<lparr>g_diskwrite := Some 0\<rparr>) =
     vm_status_text w nd vmid ty (g\<lparr>g_diskwrite := None\<rparr>) \<and>
   vm_status_text w nd vmid ty (g\<lparr>g_netin := Some 0\<rparr>) =
     vm_status_text w nd vmid ty (g\<lparr>g_netin := None\<rparr>) \<and>
   vm_status_text w nd vmid ty (g\<lparr>g_netout := Some 0\<rparr>) =
     vm_status_text w nd vmid ty (g\<lparr>g_netout := None\<rparr>) \<and>
   vm_status_text w (Some n) (Some v) ''qemu''
       (g\<lparr>g_status := ''running'', g_uptime := Some 0, g_cpu := Some 0, g_mem := Some 0,
          g_diskread := Some 0, g_diskwrite := Some 0, g_netin := Some 0, g_netout := Some 0\<rparr>) =
     [CHR 0xF0, CHR 0x9F, CHR 0x9F, CHR 0xA2] @ '' '' @ [CHR 0xF0, CHR 0x9F, CHR 0x96, CHR 0xA5, CHR 0xEF, CHR 0xB8, CHR 0x8F] @ '' **'' @
       str_or (g_name g) (''VM-'' @ v) @ ''** (ID: '' @ v @ '')\<newline>\<newline>'' @
     [CHR 0xE2, CHR 0x80, CHR 0xA2] @ '' **Node**: '' @ n @ ''\<newline>'' @
     [CHR 0xE2, CHR 0x80, CHR 0xA2] @ '' **Status**: running\<newline>'' @
     [CHR 0xE2, CHR 0x80, CHR 0xA2] @ '' **Type**: QEMU\<newline>'' @
     [CHR 0xE2, CHR 0x80, CHR 0xA2] @ '' **Uptime**: N/A\<newline>'' @
     [CHR 0xE2, CHR 0x80, CHR 0xA2] @ '' **CPU Usage**: N/A\<newline>'' @
     [CHR 0xE2, CHR 0x80, CHR 0xA2] @ '' **Memory**: N/A\<newline>'' @
     [CHR 0xE2, CHR 0x80, CHR 0xA2] @ '' **Disk Read**: N/A\<newline>'' @
     [CHR 0xE2, CHR 0x80, CHR 0xA2] @ '' **Disk Write**: N/A\<newline>'' @
     [CHR 0xE2, CHR 0x80, CHR 0xA2] @ '' **Network In**: N/A\<newline>'' @
     [CHR 0xE2, CHR 0x80, CHR 0xA2] @ '' **Network Out**: N/A\<newline>'' \<and>
   node_status_text w nd (ns\<lparr>ns_cpu := Some 0\<rparr>) =
     node_status_text w nd (ns\<lparr>ns_cpu := None\<rparr>) \<and>
   node_status_text w nd (ns\<lparr>ns_uptime := Some 0\<rparr>) =
     node_status_text w nd (ns\<lparr>ns_uptime := None\<rparr>) \<and>
   node_status_text w (Some n)
       \<lparr>ns_uptime = Some 0, ns_loadavg = None, ns_cpu = Some 0,
        ns_memory = Some \<lparr>u_used = 0, u_total = t\<rparr>, ns_rootfs = None\<rparr> =
     [CHR 0xF0, CHR 0x9F, CHR 0x96, CHR 0xA5, CHR 0xEF, CHR 0xB8, CHR 0x8F] @ ''  **Node '' @ n @ '' Status**\<newline>\<newline>'' @
     [CHR 0xE2, CHR 0x80, CHR 0xA2] @ '' **Status**: '' @ [CHR 0xF0, CHR 0x9F, CHR 0x94, CHR 0xB4] @ '' Offline\<newline>'' @
     [CHR 0xE2, CHR 0x80, CHR 0xA2] @ '' **Uptime**: N/A\<newline>'' @
     [CHR 0xE2, CHR 0x80, CHR 0xA2] @ '' **Load Average**: N/A\<newline>'' @
     [CHR 0xE2, CHR 0x80, CHR 0xA2] @ '' **CPU Usage**: N/A\<newline>'' @
     [CHR 0xE2, CHR 0x80, CHR 0xA2] @ '' **Memory**: 0 B / '' @ formatBytes (Math_log w) t @
       '' ('' @ (if t = 0 then ''NaN'' else ''0.0'') @ ''%)\<newline>'' @
     [CHR 0xE2, CHR 0x80, CHR 0xA2] @ '' **Root Disk**: N/A\<newline>'' \<and>
   storage_block w (at_node n (s\<lparr>st_used := Some 0\<rparr>)) =
     storage_block w (at_node n (s\<lparr>st_used := None\<rparr>)) \<and>
   storage_block w (at_node n (s\<lparr>st_total := Some 0\<rparr>)) =
     storage_block w (at_node n (s\<lparr>st_total := None\<rparr>)) \<and>
   storage_block w (at_node n (s\<lparr>st_enabled := Some 1, st_used := Some 0\<rparr>)) =
     [CHR 0xF0, CHR 0x9F, CHR 0x9F, CHR 0xA2] @ '' **'' @ st_storage s @ ''**\<newline>'' @
     ''   '' @ [CHR 0xE2, CHR 0x80, CHR 0xA2] @ '' Node: '' @ n @ ''\<newline>'' @
     ''   '' @ [CHR 0xE2, CHR 0x80, CHR 0xA2] @ '' Type: '' @ str_or (st_type s) ''N/A'' @ ''\<newline>'' @
     ''   '' @ [CHR 0xE2, CHR 0x80, CHR 0xA2] @ '' Content: '' @ str_or (st_content s) ''N/A'' @ ''\<newline>'' @
     ''   '' @ [CHR 0xE2, CHR 0x80, CHR 0xA2] @ '' Status: Enabled\<newline>\<newline>'' \<and>
   resource_loop (node\<lparr>n_cpu := Some 0\<rparr> # nodes) tot =
     resource_loop (node\<lparr>n_cpu := None\<rparr> # nodes) tot \<and>
   resource_loop (node\<lparr>n_maxcpu := Some 0\<rparr> # nodes) tot =
     resource_loop (node\<lparr>n_maxcpu := None\<rparr> # nodes) tot \<and>
   resource_loop (node\<lparr>n_mem := Some 0\<rparr> # nodes) tot =
     resource_loop (node\<lparr>n_mem := None\<rparr> # nodes) tot \<and>
   resource_loop (node\<lparr>n_maxmem := Some 0\<rparr> # nodes) tot =
     resource_loop (node\<lparr>n_maxmem := None\<rparr> # nodes) tot"
proof -
  have nb: "node_block w (node\<lparr>n_cpu := Some 0\<rparr>) = node_block w (node\<lparr>n_cpu := None\<rparr>)"
    "node_block w (node\<lparr>n_uptime := Some 0\<rparr>) = node_block w (node\<lparr>n_uptime := None\<rparr>)"
    "node_block w (node\<lparr>n_mem := Some 0\<rparr>) = node_block w (node\<lparr>n_mem := None\<rparr>)"
    "node_block w (node\<lparr>n_maxmem := Some 0\<rparr>) = node_block w (node\<lparr>n_maxmem := None\<rparr>)"
    by (simp_all add: node_block_def Let_def)
  have z2: "toFixed 2 0 = ''0.00''"
    by code_simp
  have z1: "toFixed (Suc 0) 0 = ''0.0''"
    by code_simp
  have up: "toUpperCase ''qemu'' = ''QEMU''"
    by code_simp
  have nbn: "node_block w
     \<lparr>n_node = name, n_status = ''online'', n_uptime = Some 0, n_cpu = Some 0, n_mem = Some 0,
      n_maxmem = maxmem, n_maxcpu = maxcpu, n_loadavg = None\<rparr> =
     [CHR 0xF0, CHR 0x9F, CHR 0x9F, CHR 0xA2] @ '' **'' @ name @ ''**\<newline>'' @
     ''   '' @ [CHR 0xE2, CHR 0x80, CHR 0xA2] @ '' Status: online\<newline>'' @
     ''   '' @ [CHR 0xE2, CHR 0x80, CHR 0xA2] @ '' Uptime: N/A\<newline>'' @
     ''   '' @ [CHR 0xE2, CHR 0x80, CHR 0xA2] @ '' CPU: N/A\<newline>'' @
     ''   '' @ [CHR 0xE2, CHR 0x80, CHR 0xA2] @ '' Memory: N/A\<newline>'' @
     ''   '' @ [CHR 0xE2, CHR 0x80, CHR 0xA2] @ '' Load: N/A\<newline>\<newline>''"
    by (simp add: node_block_def Let_def glyph_green_def bullet_def)
  have nbz: "node_block w
     \<lparr>n_node = name, n_status = ''online'', n_uptime = Some 0, n_cpu = Some 0, n_mem = Some 0,
      n_maxmem = maxmem, n_maxcpu = maxcpu, n_loadavg = Some (0 # rest)\<rparr> =
     [CHR 0xF0, CHR 0x9F, CHR 0x9F, CHR 0xA2] @ '' **'' @ name @ ''**\<newline>'' @
     ''   '' @ [CHR 0xE2, CHR 0x80, CHR 0xA2] @ '' Status: online\<newline>'' @
     ''   '' @ [CHR 0xE2, CHR 0x80, CHR 0xA2] @ '' Uptime: N/A\<newline>'' @
     ''   '' @ [CHR 0xE2, CHR 0x80, CHR 0xA2] @ '' CPU: N/A\<newline>'' @
     ''   '' @ [CHR 0xE2, CHR 0x80, CHR 0xA2] @ '' Memory: N/A\<newline>'' @
     ''   '' @ [CHR 0xE2, CHR 0x80, CHR 0xA2] @ '' Load: 0.00\<newline>\<newline>''"
    by (simp add: node_block_def Let_def glyph_green_def bullet_def z2)
  have vb: "vm_block w (tag_guest ty n (g\<lparr>g_cpu := Some 0\<rparr>)) =
     vm_block w (tag_guest ty n (g\<lparr>g_cpu := None\<rparr>))"
    "vm_block w (tag_guest ty n (g\<lparr>g_uptime := Some 0\<rparr>)) =
     vm_block w (tag_guest ty n (g\<lparr>g_uptime := None\<rparr>))"
    "vm_block w (tag_guest ty n (g\<lparr>g_mem := Some 0\<rparr>)) =
     vm_block w (tag_guest ty n (g\<lparr>g_mem := None\<rparr>))"
    "vm_block w (tag_guest ty n (g\<lparr>g_maxmem := Some 0\<rparr>)) =
     vm_block w (tag_guest ty n (g\<lparr>g_maxmem := None\<rparr>))"
    by (simp_all add: vm_block_def tag_guest_def Let_def)
  have vbx: "vm_block w (tag_guest ''qemu'' n
       (g\<lparr>g_status := ''running'', g_uptime := Some 0, g_cpu := Some 0, g_mem := Some 0\<rparr>)) =
     [CHR 0xF0, CHR 0x9F, CHR 0x9F, CHR 0xA2] @ '' '' @ [CHR 0xF0, CHR 0x9F, CHR 0x96, CHR 0xA5, CHR 0xEF, CHR 0xB8, CHR 0x8F] @ '' **'' @
       str_or (g_name g) (''VM-'' @ show_nat (g_vmid g)) @
       ''** (ID: '' @ show_nat (g_vmid g) @ '')\<newline>'' @
     ''   '' @ [CHR 0xE2, CHR 0x80, CHR 0xA2] @ '' Node: '' @ n @ ''\<newline>'' @
     ''   '' @ [CHR 0xE2, CHR 0x80, CHR 0xA2] @ '' Status: running\<newline>'' @
     ''   '' @ [CHR 0xE2, CHR 0x80, CHR 0xA2] @ '' Type: QEMU\<newline>'' @
     ''   '' @ [CHR 0xE2, CHR 0x80, CHR 0xA2] @ '' Uptime: N/A\<newline>'' @
     ''   '' @ [CHR 0xE2, CHR 0x80, CHR 0xA2] @ '' CPU: N/A\<newline>'' @
     ''   '' @ [CHR 0xE2, CHR 0x80, CHR 0xA2] @ '' Memory: N/A\<newline>'' @
     ''\<newline>''"
    by (simp add: vm_block_def tag_guest_def Let_def status_glyph_def up glyph_green_def
        glyph_computer_def bullet_def)
  have vs: "vm_status_text w nd vmid ty (g\<lparr>g_cpu := Some 0\<rparr>) =
     vm_status_text w nd vmid ty (g\<lparr>g_cpu := None\<rparr>)"
    "vm_status_text w nd vmid ty (g\<lparr>g_uptime := Some 0\<rparr>) =
     vm_status_text w nd vmid ty (g\<lparr>g_uptime := None\<rparr>)"
    "vm_status_text w nd vmid ty (g\<lparr>g_mem := Some 0\<rparr>) =
     vm_status_text w nd vmid ty (g\<lparr>g_mem := None\<rparr>)"
    "vm_status_text w nd vmid ty (g\<lparr>g_maxmem := Some 0\<rparr>) =
     vm_status_text w nd vmid ty (g\<lparr>g_maxmem := None\<rparr>)"
    "vm_status_text w nd vmid ty (g\<lparr>g_diskread := Some 0\<rparr>) =
     vm_status_text w nd vmid ty (g\<lparr>g_diskread := None\<rparr>)"
    "vm_status_text w nd vmid ty (g\<lparr>g_diskwrite := Some 0\<rparr>) =
     vm_status_text w nd vmid ty (g\<lparr>g_diskwrite := None\<rparr>)"
    "vm_status_text w nd vmid ty (g\<lparr>g_netin := Some 0\<rparr>) =
     vm_status_text w nd vmid ty (g\<lparr>g_netin := None\<rparr>)"
    "vm_status_text w nd vmid ty (g\<lparr>g_netout := Some 0\<rparr>) =
     vm_status_text w nd vmid ty (g\<lparr>g_netout := None\<rparr>)"
    by (simp_all add: vm_status_text_def Let_def)
  have vsx: "vm_status_text w (Some n) (Some v) ''qemu''
       (g\<lparr>g_status := ''running'', g_uptime := Some 0, g_cpu := Some 0, g_mem := Some 0,
          g_diskread := Some 0, g_diskwrite := Some 0, g_netin := Some 0, g_netout := Some 0\<rparr>) =
     [CHR 0xF0, CHR 0x9F, CHR 0x9F, CHR 0xA2] @ '' '' @ [CHR 0xF0, CHR 0x9F, CHR 0x96, CHR 0xA5, CHR 0xEF, CHR 0xB8, CHR 0x8F] @ '' **'' @
       str_or (g_name g) (''VM-'' @ v) @ ''** (ID: '' @ v @ '')\<newline>\<newline>'' @
     [CHR 0xE2, CHR 0x80, CHR 0xA2] @ '' **Node**: '' @ n @ ''\<newline>'' @
     [CHR 0xE2, CHR 0x80, CHR 0xA2] @ '' **Status**: running\<newline>'' @
     [CHR 0xE2, CHR 0x80, CHR 0xA2] @ '' **Type**: QEMU\<newline>'' @
     [CHR 0xE2, CHR 0x80, CHR 0xA2] @ '' **Uptime**: N/A\<newline>'' @
     [CHR 0xE2, CHR 0x80, CHR 0xA2] @ '' **CPU Usage**: N/A\<newline>'' @
     [CHR 0xE2, CHR 0x80, CHR 0xA2] @ '' **Memory**: N/A\<newline>'' @
     [CHR 0xE2, CHR 0x80, CHR 0xA2] @ '' **Disk Read**: N/A\<newline>'' @
     [CHR 0xE2, CHR 0x80, CHR 0xA2] @ '' **Disk Write**: N/A\<newline>'' @
     [CHR 0xE2, CHR 0x80, CHR 0xA2] @ '' **Network In**: N/A\<newline>'' @
     [CHR 0xE2, CHR 0x80, CHR 0xA2] @ '' **Network Out**: N/A\<newline>''"
    by (simp add: vm_status_text_def Let_def status_glyph_def up js_str_def glyph_green_def
        glyph_computer_def bullet_def)
  have nst: "node_status_text w nd (ns\<lparr>ns_cpu := Some 0\<rparr>) =
     node_status_text w nd (ns\<lparr>ns_cpu := None\<rparr>)"
    "node_status_text w nd (ns\<lparr>ns_uptime := Some 0\<rparr>) =
     node_status_text w nd (ns\<lparr>ns_uptime := None\<rparr>)"
    by (simp_all add: node_status_text_def)
  have nsx: "node_status_text w (Some n)
       \<lparr>ns_uptime = Some 0, ns_loadavg = None, ns_cpu = Some 0,
        ns_memory = Some \<lparr>u_used = 0, u_total = t\<rparr>, ns_rootfs = None\<rparr> =
     [CHR 0xF0, CHR 0x9F, CHR 0x96, CHR 0xA5, CHR 0xEF, CHR 0xB8, CHR 0x8F] @ ''  **Node '' @ n @ '' Status**\<newline>\<newline>'' @
     [CHR 0xE2, CHR 0x80, CHR 0xA2] @ '' **Status**: '' @ [CHR 0xF0, CHR 0x9F, CHR 0x94, CHR 0xB4] @ '' Offline\<newline>'' @
     [CHR 0xE2, CHR 0x80, CHR 0xA2] @ '' **Uptime**: N/A\<newline>'' @
     [CHR 0xE2, CHR 0x80, CHR 0xA2] @ '' **Load Average**: N/A\<newline>'' @
     [CHR 0xE2, CHR 0x80, CHR 0xA2] @ '' **CPU Usage**: N/A\<newline>'' @
     [CHR 0xE2, CHR 0x80, CHR 0xA2] @ '' **Memory**: 0 B / '' @ formatBytes (Math_log w) t @
       '' ('' @ (if t = 0 then ''NaN'' else ''0.0'') @ ''%)\<newline>'' @
     [CHR 0xE2, CHR 0x80, CHR 0xA2] @ '' **Root Disk**: N/A\<newline>''"
    by (simp add: node_status_text_def usage_text_def percent1_unguarded_def percent1_def
        fl_def formatBytes_def js_str_def z1 glyph_computer_def glyph_red_def bullet_def)
  have sb: "storage_block w (at_node n (s\<lparr>st_used := Some 0\<rparr>)) =
     storage_block w (at_node n (s\<lparr>st_used := None\<rparr>))"
    "storage_block w (at_node n (s\<lparr>st_total := Some 0\<rparr>)) =
     storage_block w (at_node n (s\<lparr>st_total := None\<rparr>))"
    by (simp_all add: storage_block_def at_node_def Let_def)
  have sbx: "storage_block w (at_node n (s\<lparr>st_enabled := Some 1, st_used := Some 0\<rparr>)) =
     [CHR 0xF0, CHR 0x9F, CHR 0x9F, CHR 0xA2] @ '' **'' @ st_storage s @ ''**\<newline>'' @
     ''   '' @ [CHR 0xE2, CHR 0x80, CHR 0xA2] @ '' Node: '' @ n @ ''\<newline>'' @
     ''   '' @ [CHR 0xE2, CHR 0x80, CHR 0xA2] @ '' Type: '' @ str_or (st_type s) ''N/A'' @ ''\<newline>'' @
     ''   '' @ [CHR 0xE2, CHR 0x80, CHR 0xA2] @ '' Content: '' @ str_or (st_content s) ''N/A'' @ ''\<newline>'' @
     ''   '' @ [CHR 0xE2, CHR 0x80, CHR 0xA2] @ '' Status: Enabled\<newline>\<newline>''"
    by (simp add: storage_block_def at_node_def Let_def truthy_nat_def glyph_green_def
        bullet_def)
  have rl: "resource_loop (node\<lparr>n_cpu := Some 0\<rparr> # nodes) tot =
     resource_loop (node\<lparr>n_cpu := None\<rparr> # nodes) tot"
    "resource_loop (node\<lparr>n_maxcpu := Some 0\<rparr> # nodes) tot =
     resource_loop (node\<lparr>n_maxcpu := None\<rparr> # nodes) tot"
    "resource_loop (node\<lparr>n_mem := Some 0\<rparr> # nodes) tot =
     resource_loop (node\<lparr>n_mem := None\<rparr> # nodes) tot"
    "resource_loop (node\<lparr>n_maxmem := Some 0\<rparr> # nodes) tot =
     resource_loop (node\<lparr>n_maxmem := None\<rparr> # nodes) tot"
    by simp_all
  show ?thesis
    by (intro conjI nb nbn nbz vb vbx vs vsx nst nsx sb sbx rl)
qed

subsection \<open>The aggregate of cluster-status\<close>

lemma resource_loop_spec:
  "resource_loop nodes t =
     \<lparr>totalCpu = totalCpu t + spec_cpu_capacity nodes,
      usedCpu = float_sum_from (usedCpu t)
        (map (\<lambda>n. fl (num_or0 (n_cpu n) * of_nat (nat_or0 (n_maxcpu n)))) (online nodes)),
      totalMem = totalMem t + spec_mem_capacity nodes,
      usedMem = usedMem t + spec_mem_used nodes\<rparr>"
proof (induction nodes arbitrary: t)
  case Nil
  then show ?case
    by (simp add: spec_cpu_capacity_def spec_mem_capacity_def spec_mem_used_def online_def
        float_sum_from_def)
next
  case (Cons node nodes)
  show ?case
    by (simp add: Cons.IH spec_cpu_capacity_def spec_mem_capacity_def spec_mem_used_def online_def
        float_sum_from_def)
qed

lemma resource_text_spec:
  "resource_text w nodes =
     ''**Resource Usage**:\<newline>'' @
     bullet @ '' CPU: '' @ spec_percent (spec_cpu_used nodes) (of_nat (spec_cpu_capacity nodes)) @
       ''% ('' @ toFixed 1 (spec_cpu_used nodes) @ ''/'' @ show_nat (spec_cpu_capacity nodes) @
       '' cores)\<newline>'' @
     bullet @ '' Memory: '' @
       spec_percent (of_nat (spec_mem_used nodes)) (of_nat (spec_mem_capacity nodes)) @
       ''% ('' @ formatBytes (Math_log w) (spec_mem_used nodes) @ ''/'' @
       formatBytes (Math_log w) (spec_mem_capacity nodes) @ '')\<newline>\<newline>''"
  by (simp add: resource_text_def resource_loop_spec Let_def spec_percent_def percent1_def
      spec_cpu_used_def)

lemma optional_call_returns:
  "io_catch (io_bind (proxmoxRequest w parse endpoint method body) (\<lambda>x. io_return ()))
     (\<lambda>message. io_return ()) made =
   (Inr (), made @ [mk_call w endpoint method body])"
  by (simp add: io_catch_def io_bind_def io_return_def proxmoxRequest_def Let_def
      split: fetch_outcome.splits sum.splits)

lemma fl_values:
  "fl 1 = 1" "fl (1 / 2) = 1 / 2" "fl (3 / 2) = 3 / 2" "fl (3 / 8) = 3 / 8" "fl (75 / 2) = 75 / 2"
  by code_simp+

lemma toFixed_values: "toFixed 1 (75 / 2) = ''37.5''" "toFixed 1 (3 / 2) = ''1.5''"
  by code_simp+

lemmas toFixed_values_Suc = toFixed_values [unfolded One_nat_def]

lemma scenario_totals:
  "spec_cpu_capacity two_online_nodes = 4" "spec_cpu_used two_online_nodes = 3 / 2"
  "spec_mem_capacity two_online_nodes = 2000" "spec_mem_used two_online_nodes = 750"
  by (simp_all add: spec_cpu_capacity_def spec_cpu_used_def spec_mem_capacity_def spec_mem_used_def
      two_online_nodes_def online_def nat_or0_def num_or0_def float_sum_from_def fl_values)

lemma scenario_cpu: "spec_percent (spec_cpu_used two_online_nodes)
     (of_nat (spec_cpu_capacity two_online_nodes)) = ''37.5''"
  by (simp add: scenario_totals spec_percent_def fl_values toFixed_values_Suc)

lemma scenario_mem: "spec_percent (of_nat (spec_mem_used two_online_nodes))
     (of_nat (spec_mem_capacity two_online_nodes)) = ''37.5''"
  by (simp add: scenario_totals spec_percent_def fl_values toFixed_values_Suc)

lemma io_bind_step: "m made = (Inr x, made1) \<Longrightarrow> io_bind m f made = f x made1"
  by (simp add: io_bind_def)

lemma io_catch_ok: "m made = (Inr x, made1) \<Longrightarrow> io_catch m h made = (Inr x, made1)"
  by (simp add: io_catch_def)

text \<open>
  C5. With elevated access, cluster-status reports, over the online nodes, the CPU in use
  (the sum of \<open>cpu \<times> maxcpu\<close>) and the memory in use (the sum of \<open>mem\<close>), each as a
  percentage of the summed capacity with one decimal, and \<^verbatim>\<open>N/A\<close> when the summed capacity
  is zero. For the two online nodes of the scenario both percentages are \<^verbatim>\<open>37.5\<close>, printed
  with a percent sign.
\<close>

theorem cluster_resource_usage:
  assumes "allowElevated w"
    and "proxmoxRequest w (parse_nodes w) ''/nodes'' ''GET'' NoBody made = (Inr nodes, made')"
  shows "getClusterStatus w made =
           (Inr [Text (overview_text nodes @
                  ''**Resource Usage**:\<newline>'' @
                  bullet @ '' CPU: '' @
                    spec_percent (spec_cpu_used nodes) (of_nat (spec_cpu_capacity nodes)) @
                    ''% ('' @ toFixed 1 (spec_cpu_used nodes) @ ''/'' @
                    show_nat (spec_cpu_capacity nodes) @ '' cores)\<newline>'' @
                  bullet @ '' Memory: '' @
                    spec_percent (of_nat (spec_mem_used nodes)) (of_nat (spec_mem_capacity nodes)) @
                    ''% ('' @ formatBytes (Math_log w) (spec_mem_used nodes) @ ''/'' @
                    formatBytes (Math_log w) (spec_mem_capacity nodes) @ '')\<newline>\<newline>'' @
                  node_details_text w nodes)],
            made' @ [mk_call w ''/cluster/status'' ''GET'' NoBody]) \<and>
         spec_percent (spec_cpu_used two_online_nodes) (of_nat (spec_cpu_capacity two_online_nodes)) =
           ''37.5'' \<and>
         spec_percent (of_nat (spec_mem_used two_online_nodes))
           (of_nat (spec_mem_capacity two_online_nodes)) = ''37.5''"
proof -
  let ?call = "mk_call w ''/cluster/status'' ''GET'' NoBody"
  let ?opt = "if allowElevated w
              then io_catch
                     (io_bind
                        (proxmoxRequest w (parse_cluster_status w) ''/cluster/status'' ''GET'' NoBody)
                        (\<lambda>clusterStatus. io_return ()))
                     (\<lambda>message. io_return ())
              else io_return ()"
  let ?rest = "\<lambda>nodes. io_bind ?opt (\<lambda>_. io_return (text_payload (cluster_text w nodes)))"
  let ?req = "proxmoxRequest w (parse_nodes w) ''/nodes'' ''GET'' NoBody"
  have inner: "?opt made' = (Inr (), made' @ [?call])"
    using assms(1)
      optional_call_returns [of w "parse_cluster_status w" "''/cluster/status''" "''GET''" NoBody made']
    by simp
  have step1: "?rest nodes made' = (Inr [Text (cluster_text w nodes)], made' @ [?call])"
    using io_bind_step [of ?opt made' "()" "made' @ [?call]"
        "\<lambda>_. io_return (text_payload (cluster_text w nodes))", OF inner]
    by (simp add: io_return_def text_payload_def)
  have step2: "io_bind ?req ?rest made = (Inr [Text (cluster_text w nodes)], made' @ [?call])"
    using io_bind_step [of ?req made nodes made' ?rest, OF assms(2)] step1 by simp
  have "getClusterStatus w made = (Inr [Text (cluster_text w nodes)], made' @ [?call])"
    unfolding getClusterStatus_def
    using io_catch_ok [of "io_bind ?req ?rest" made _ _
        "\<lambda>message. io_return (text_payload (cluster_failure_text message))", OF step2]
    by simp
  then show ?thesis
    using assms(1) scenario_cpu scenario_mem
    by (simp add: cluster_text_def resource_text_spec)
qed


lemma two_nodes_request:
  "proxmoxRequest two_nodes_world (parse_nodes two_nodes_world) ''/nodes'' ''GET'' NoBody [] =
     (Inr two_online_nodes, [mk_call two_nodes_world ''/nodes'' ''GET'' NoBody])"
  by (simp add: proxmoxRequest_def two_nodes_world_def test_world_simps Let_def)

lemma two_nodes_overview:
  "overview_text two_online_nodes =
     glyph_crane @ ''  **Proxmox Cluster Status**\<newline>\<newline>'' @
     ''**Cluster Health**: '' @ glyph_green @ '' Healthy\<newline>'' @
     ''**Nodes**: 2/2 online\<newline>\<newline>''"
  by (simp add: overview_text_def two_online_nodes_def show_nat.simps digit_def)

lemma two_nodes_details:
  "node_details_text two_nodes_world two_online_nodes =
     ''**Node Details**:\<newline>'' @ glyph_green @ '' pve1 - online\<newline>'' @
     glyph_green @ '' pve2 - online\<newline>''"
  by (simp add: node_details_text_def two_online_nodes_def sort_cmp_def two_nodes_world_def
      test_world_def)

lemma binary64_index_750: "\<lfloor>fl (binary64_log 750 / binary64_log 1024)\<rfloor> = int 0"
proof -
  have l: "binary64_log 750 = 7453539806523879 / 1125899906842624"
    by (simp add: binary64_log_def)
  have "\<lfloor>fl ((7453539806523879 / 1125899906842624) /
            (7804143460206699 / 1125899906842624))\<rfloor> = 0"
    by code_simp
  then show ?thesis
    unfolding l binary64_log_1024 by simp
qed

lemma binary64_index_2000: "\<lfloor>fl (binary64_log 2000 / binary64_log 1024)\<rfloor> = int 1"
proof -
  have l: "binary64_log 2000 = 4278927685559151 / 562949953421312"
    by (simp add: binary64_log_def)
  have "\<lfloor>fl ((4278927685559151 / 562949953421312) /
            (7804143460206699 / 1125899906842624))\<rfloor> = 1"
    by code_simp
  then show ?thesis
    unfolding l binary64_log_1024 by simp
qed

lemma two_nodes_bytes:
  "formatBytes (Math_log two_nodes_world) 750 = ''750 B''"
  "formatBytes (Math_log two_nodes_world) 2000 = ''1.95 KB''"
proof -
  have u: "Math_log two_nodes_world = binary64_log"
    by (simp add: two_nodes_world_def test_world_def)
  have h: "hundredths 750 0 = 75000" "hundredths 2000 1 = 195"
    by (simp_all add: hundredths_def floor_numeral_div)
  have s: "shortest_decimal 75000 = ''750''" "shortest_decimal 195 = ''1.95''"
    by (simp_all add: shortest_decimal_def show_nat.simps digit_def)
  have a: "formatBytes binary64_log 750 = shortest_decimal (hundredths 750 0) @ '' '' @ sizes ! 0"
    by (rule formatBytes_shortest [OF _ binary64_log_1024_nonzero binary64_index_750])
      (simp_all add: sizes_def)
  have b: "formatBytes binary64_log 2000 = shortest_decimal (hundredths 2000 1) @ '' '' @ sizes ! 1"
    by (rule formatBytes_shortest [OF _ binary64_log_1024_nonzero binary64_index_2000])
      (simp_all add: sizes_def)
  show "formatBytes (Math_log two_nodes_world) 750 = ''750 B''"
    unfolding u a by (simp add: h s sizes_def)
  show "formatBytes (Math_log two_nodes_world) 2000 = ''1.95 KB''"
    unfolding u b by (simp add: h [unfolded One_nat_def] s sizes_def)
qed

theorem cluster_resource_usage_witness:
  "allowElevated two_nodes_world \<and>
   fst (getClusterStatus two_nodes_world []) =
     Inr [Text (glyph_crane @ ''  **Proxmox Cluster Status**\<newline>\<newline>'' @
                ''**Cluster Health**: '' @ glyph_green @ '' Healthy\<newline>'' @
                ''**Nodes**: 2/2 online\<newline>\<newline>'' @
                ''**Resource Usage**:\<newline>'' @
                bullet @ '' CPU: 37.5% (1.5/4 cores)\<newline>'' @
                bullet @ '' Memory: 37.5% (750 B/1.95 KB)\<newline>\<newline>'' @
                ''**Node Details**:\<newline>'' @ glyph_green @ '' pve1 - online\<newline>'' @
                glyph_green @ '' pve2 - online\<newline>'')]"
proof -
  have h: "allowElevated two_nodes_world"
    by (simp add: two_nodes_world_def test_world_def)
  have four: "show_nat 4 = ''4''"
    by (simp add: show_nat.simps digit_def)
  show ?thesis
    using h cluster_resource_usage [OF h two_nodes_request]
    by (simp add: scenario_totals two_nodes_overview two_nodes_details two_nodes_bytes
        toFixed_values_Suc four)
qed

end
